theory Spec2Isabelle
  imports Complex_Main "HOL-Library.Word" "HOL-Library.AList"
begin

section \<open>The three revisions of the message handler\<close>

text \<open>
  The repository holds one Telegram message handler in three revisions:
  \<^item> \<open>src/src/index.js\<close>: text only, no content check;
  \<^item> \<open>src/unnamed/part_001\<close>, lines 1-164: photos and text, plain prompt;
  \<^item> \<open>src/unnamed/part_001\<close>, lines 165-398: photos and text, structured output
    requested with a response schema, \<open>payed_at\<close> defaulted to the current time.
  The handler is straight-line code around five outside parties (Telegram, the HTTP client,
  the Gemini SDK, the Supabase client, the JavaScript runtime). Each outside call is a
  field of an environment record that says what the call answers; the handler is a
  function from the environment and the message to the list of calls it makes, the rows
  the store holds afterwards, and whether its promise resolves or rejects.
\<close>

datatype variant = TextOnly | WithPhotos | WithSchema

section \<open>JavaScript values\<close>

text \<open>
  The values \<open>JSON.parse\<close> returns, with \<open>undefined\<close> added for the result of reading
  a property that is not there. Numbers are kept abstract (type \<open>'n\<close>): the handler only
  tests them for truthiness and converts them to strings. An array carries, besides its
  elements, the named properties assigned to it after parsing (none when it comes out of
  \<open>JSON.parse\<close>). Strings are byte strings in UTF-8.
\<close>

datatype 'n jsval =
    Undefined
  | JNull
  | JBool bool
  | JNum 'n
  | JStr string
  | JArr "'n jsval list" "(string \<times> 'n jsval) list"
  | JObj "(string \<times> 'n jsval) list"

datatype js_error = TypeError string | SyntaxError string | Rejected string

text \<open>
  Property read \<open>x.k\<close> for the keys the handler reads (\<open>value\<close>, \<open>description\<close>,
  \<open>category\<close>, \<open>payed_at\<close>, \<open>data\<close>, \<open>location\<close>, \<open>merchant\<close>, \<open>payment_method\<close>,
  \<open>notes\<close>): none of them is a property of the Number, String, Boolean, Array or Object
  prototypes, so a primitive and an array without such a named property answer
  \<open>undefined\<close>. Reading a property of \<open>null\<close> or \<open>undefined\<close> throws in JavaScript; every
  read of the handler on a parsed value stands behind a truthiness test of that value
  (\<open>financialData && ...\<close>, \<open>if (financialData.data)\<close>), so those two equations are never
  reached from it.
\<close>

fun get_prop :: "'n jsval \<Rightarrow> string \<Rightarrow> 'n jsval" where
  "get_prop (JObj ps) k = (case map_of ps k of Some v \<Rightarrow> v | None \<Rightarrow> Undefined)"
| "get_prop (JArr xs ps) k = (case map_of ps k of Some v \<Rightarrow> v | None \<Rightarrow> Undefined)"
| "get_prop (JNum n) k = Undefined"
| "get_prop (JStr s) k = Undefined"
| "get_prop (JBool b) k = Undefined"
| "get_prop JNull k = Undefined"
| "get_prop Undefined k = Undefined"

text \<open>
  Property assignment \<open>x.k = v\<close> in sloppy mode (the files are CommonJS scripts without
  \<open>"use strict"\<close>): objects and arrays take the property, on a primitive the assignment
  is silently dropped.
\<close>

fun set_prop :: "'n jsval \<Rightarrow> string \<Rightarrow> 'n jsval \<Rightarrow> 'n jsval" where
  "set_prop (JObj ps) k v = JObj (AList.update k v ps)"
| "set_prop (JArr xs ps) k v = JArr xs (AList.update k v ps)"
| "set_prop x k v = x"

fun join_comma :: "string list \<Rightarrow> string" where
  "join_comma [] = []"
| "join_comma [s] = s"
| "join_comma (s # t # ss) = s @ '','' @ join_comma (t # ss)"

section \<open>Data passed between the handler and the outside\<close>

record 'n row =
  row_value :: "'n jsval"
  row_description :: "'n jsval"
  row_category :: "'n jsval"
  row_payed_at :: "'n jsval"
  row_data :: "'n jsval"

record photo_size =
  file_id :: string

record message =
  msg_chat_id :: int
  msg_text :: "string option"
  msg_photo :: "photo_size list option"

record file_info =
  file_path :: "string option"

record inline_data =
  inlineData_data :: string
  inlineData_mimeType :: string

datatype content =
    TextContent string
  | ImageContent string inline_data

datatype logarg = LogText string | LogError js_error

datatype 'n event =
    GetFile string
  | HttpGet string
  | GenerateContent content
  | GenerateContentSchema content
  | Insert "'n row"
  | SendMessage int string
  | ConsoleLog string logarg
  | ConsoleError string logarg

text \<open>
  The environment: what each outside call answers. \<open>Inl e\<close> is a rejected promise or a
  thrown exception. \<open>supabase_insert\<close> answers the \<open>error\<close> field of the store's response
  (\<open>None\<close> for \<open>null\<close>). \<open>model_generateContent\<close> stands for
  \<open>model.generateContent(c)\<close> followed by \<open>response.text()\<close> of the old SDK;
  \<open>ai_generateContent\<close> for \<open>ai.models.generateContent\<close> with the JSON mime type and
  \<open>FINANCIAL_SCHEMA\<close>, followed by \<open>response.text\<close> (an undefined \<open>response.text\<close> is
  the string \<open>undefined\<close>, which is what both \<open>JSON.parse\<close> and \<open>console.log\<close> make of it).
  \<open>toLocaleDateString\<close> stands for \<open>new Date(p).toLocaleDateString()\<close> of a primitive
  \<open>p\<close>, and \<open>now_toISOString\<close> for \<open>new Date().toISOString()\<close>.
\<close>

record 'n env =
  TELEGRAM_BOT_TOKEN :: string
  num_falsy :: "'n \<Rightarrow> bool"
  num_to_string :: "'n \<Rightarrow> string"
  trim :: "string \<Rightarrow> string"
  JSON_parse :: "string \<Rightarrow> js_error + 'n jsval"
  now_toISOString :: string
  toLocaleDateString :: "'n jsval \<Rightarrow> string"
  bot_getFile :: "string \<Rightarrow> js_error + file_info"
  axios_get :: "string \<Rightarrow> js_error + 8 word list"
  model_generateContent :: "content \<Rightarrow> js_error + string"
  ai_generateContent :: "content \<Rightarrow> js_error + string"
  supabase_insert :: "'n row \<Rightarrow> js_error + js_error option"
  bot_sendMessage :: "int \<Rightarrow> string \<Rightarrow> js_error option"

text \<open>Truthiness (\<open>ToBoolean\<close>); \<open>num_falsy\<close> holds of \<open>+0\<close>, \<open>-0\<close> and \<open>NaN\<close>.\<close>

fun truthy :: "'n env \<Rightarrow> 'n jsval \<Rightarrow> bool" where
  "truthy env Undefined = False"
| "truthy env JNull = False"
| "truthy env (JBool b) = b"
| "truthy env (JNum n) = (\<not> num_falsy env n)"
| "truthy env (JStr s) = (s \<noteq> [])"
| "truthy env (JArr xs ps) = True"
| "truthy env (JObj ps) = True"

text \<open>The values that are not objects.\<close>

fun primitive :: "'n jsval \<Rightarrow> bool" where
  "primitive (JObj ps) = False"
| "primitive (JArr xs ps) = False"
| "primitive x = True"

text \<open>
  \<open>ToString\<close>, as a template literal \<open>${x}\<close> applies it. An object or an array goes
  through \<open>OrdinaryToPrimitive\<close>: the method \<open>toString\<close> is looked up and called when it
  is callable, then \<open>valueOf\<close>, and a TypeError is thrown when neither answers a
  primitive. No value that comes out of \<open>JSON.parse\<close> is callable, and
  \<open>Object.prototype.valueOf\<close> answers the object itself, so
  \<^item> an object with an own property \<open>toString\<close> throws, any other object answers
    \<open>[object Object]\<close>;
  \<^item> an array with an own property \<open>toString\<close> throws; otherwise
    \<open>Array.prototype.toString\<close> calls \<open>join\<close>, or answers \<open>[object Array]\<close> when an own
    property \<open>join\<close> hides it; \<open>join\<close> converts the elements from left to right, \<open>null\<close>
    and \<open>undefined\<close> to the empty string, and the first element that throws ends it.
\<close>

definition NOT_PRIMITIVE :: js_error where
  "NOT_PRIMITIVE = TypeError ''Cannot convert object to primitive value''"

text \<open>Evaluation from left to right of expressions that may throw.\<close>

definition bind_sum :: "'e + 'a \<Rightarrow> ('a \<Rightarrow> 'e + 'b) \<Rightarrow> 'e + 'b" where
  "bind_sum r k = (case r of Inl e \<Rightarrow> Inl e | Inr x \<Rightarrow> k x)"

fun convert_each :: "(js_error + string) list \<Rightarrow> js_error + string list" where
  "convert_each [] = Inr []"
| "convert_each (r # rs) =
     bind_sum r (\<lambda>s. bind_sum (convert_each rs) (\<lambda>ss. Inr (s # ss)))"

fun ToString :: "'n env \<Rightarrow> 'n jsval \<Rightarrow> js_error + string" where
  "ToString env Undefined = Inr ''undefined''"
| "ToString env JNull = Inr ''null''"
| "ToString env (JBool b) = Inr (if b then ''true'' else ''false'')"
| "ToString env (JNum n) = Inr (num_to_string env n)"
| "ToString env (JStr s) = Inr s"
| "ToString env (JArr xs ps) =
     (if map_of ps ''toString'' \<noteq> None then Inl NOT_PRIMITIVE
      else if map_of ps ''join'' \<noteq> None then Inr ''[object Array]''
      else
        bind_sum
          (convert_each
             (map (\<lambda>x. case x of Undefined \<Rightarrow> Inr [] | JNull \<Rightarrow> Inr [] | _ \<Rightarrow> ToString env x) xs))
          (\<lambda>ss. Inr (join_comma ss)))"
| "ToString env (JObj ps) =
     (if map_of ps ''toString'' \<noteq> None then Inl NOT_PRIMITIVE else Inr ''[object Object]'')"

text \<open>
  \<open>ToPrimitive\<close>, as \<open>new Date(x)\<close> applies it: \<open>valueOf\<close> is tried first and never
  answers a primitive here, so an object or an array becomes the string its \<open>toString\<close>
  answers, or throws as above. \<open>new Date(x).toLocaleDateString()\<close> is that conversion
  followed by the runtime's formatting of the date.
\<close>

definition ToPrimitive :: "'n env \<Rightarrow> 'n jsval \<Rightarrow> js_error + 'n jsval" where
  "ToPrimitive env x =
     (if primitive x then Inr x
      else (case ToString env x of Inl e \<Rightarrow> Inl e | Inr s \<Rightarrow> Inr (JStr s)))"

definition Date_toLocaleDateString :: "'n env \<Rightarrow> 'n jsval \<Rightarrow> js_error + string" where
  "Date_toLocaleDateString env x =
     (case ToPrimitive env x of Inl e \<Rightarrow> Inl e | Inr p \<Rightarrow> Inr (toLocaleDateString env p))"

section \<open>Effects\<close>

text \<open>
  A computation takes the rows the store holds and answers a result or an exception, the
  rows the store holds afterwards, and the outside calls it made, in order.
\<close>

type_synonym ('n, 'a) io = "'n row list \<Rightarrow> (js_error + 'a) \<times> 'n row list \<times> 'n event list"

definition return_io :: "'a \<Rightarrow> ('n, 'a) io" where
  "return_io x = (\<lambda>st. (Inr x, st, []))"

definition throw_io :: "js_error \<Rightarrow> ('n, 'a) io" where
  "throw_io e = (\<lambda>st. (Inl e, st, []))"

definition bind_io :: "('n, 'a) io \<Rightarrow> ('a \<Rightarrow> ('n, 'b) io) \<Rightarrow> ('n, 'b) io" where
  "bind_io m k = (\<lambda>st.
     case m st of
       (Inl e, st1, ev1) \<Rightarrow> (Inl e, st1, ev1)
     | (Inr x, st1, ev1) \<Rightarrow> (case k x st1 of (r, st2, ev2) \<Rightarrow> (r, st2, ev1 @ ev2)))"

definition try_catch :: "('n, 'a) io \<Rightarrow> (js_error \<Rightarrow> ('n, 'a) io) \<Rightarrow> ('n, 'a) io" where
  "try_catch m h = (\<lambda>st.
     case m st of
       (Inl e, st1, ev1) \<Rightarrow> (case h e st1 of (r, st2, ev2) \<Rightarrow> (r, st2, ev1 @ ev2))
     | (Inr x, st1, ev1) \<Rightarrow> (Inr x, st1, ev1))"

definition lift_io :: "js_error + 'a \<Rightarrow> ('n, 'a) io" where
  "lift_io r = (\<lambda>st. (r, st, []))"

definition console_log :: "string \<Rightarrow> logarg \<Rightarrow> ('n, unit) io" where
  "console_log label arg = (\<lambda>st. (Inr (), st, [ConsoleLog label arg]))"

definition console_error :: "string \<Rightarrow> logarg \<Rightarrow> ('n, unit) io" where
  "console_error label arg = (\<lambda>st. (Inr (), st, [ConsoleError label arg]))"

definition send_result :: "'n env \<Rightarrow> int \<Rightarrow> string \<Rightarrow> js_error + unit" where
  "send_result env chatId txt =
     (case bot_sendMessage env chatId txt of None \<Rightarrow> Inr () | Some e \<Rightarrow> Inl e)"

definition sendMessage :: "'n env \<Rightarrow> int \<Rightarrow> string \<Rightarrow> ('n, unit) io" where
  "sendMessage env chatId txt = (\<lambda>st. (send_result env chatId txt, st, [SendMessage chatId txt]))"

definition getFile :: "'n env \<Rightarrow> string \<Rightarrow> ('n, file_info) io" where
  "getFile env fid = (\<lambda>st. (bot_getFile env fid, st, [GetFile fid]))"

definition generateContent :: "'n env \<Rightarrow> content \<Rightarrow> ('n, string) io" where
  "generateContent env c = (\<lambda>st. (model_generateContent env c, st, [GenerateContent c]))"

definition generateContentSchema :: "'n env \<Rightarrow> content \<Rightarrow> ('n, string) io" where
  "generateContentSchema env c = (\<lambda>st. (ai_generateContent env c, st, [GenerateContentSchema c]))"

text \<open>
  \<open>supabase.from("payments").insert([r])\<close>: the store keeps the row exactly when the
  response comes back with \<open>error\<close> null.
\<close>

definition insert_payment :: "'n env \<Rightarrow> 'n row \<Rightarrow> ('n, js_error option) io" where
  "insert_payment env r = (\<lambda>st.
     case supabase_insert env r of
       Inl e \<Rightarrow> (Inl e, st, [Insert r])
     | Inr (Some err) \<Rightarrow> (Inr (Some err), st, [Insert r])
     | Inr None \<Rightarrow> (Inr None, st @ [r], [Insert r]))"

section \<open>Texts\<close>

definition EXTRACTION_PROMPT_index :: string where
  \<comment> \<open>src/src/index.js, lines 25-45\<close>
  \<open>EXTRACTION_PROMPT_index = concat [
    ''You are a financial data extraction assistant. Your task is to extract financial information from messages and return it in a specific JSON format.\<newline>'',
    ''\<newline>'',
    ''When given a message, analyze it and extract:\<newline>'',
    ''- Payment amount (in numbers)\<newline>'',
    ''- Payment description\<newline>'',
    ''- Category (e.g., food, transport, utilities)\<newline>'',
    ''- Date (if mentioned)\<newline>'',
    ''\<newline>'',
    ''IMPORTANT: You must ONLY return a valid JSON object with the following structure:\<newline>'',
    ''{\<newline>'',
    ''  "value": <number>,\<newline>'',
    ''  "description": "<string>",\<newline>'',
    ''  "category": "<string>",\<newline>'',
    ''  "payed_at": "<ISO date string or null>",\<newline>'',
    ''  "data": {}\<newline>'',
    ''}\<newline>'',
    ''\<newline>'',
    ''If no financial information is found, return exactly: {"value": null, "description": null, "category": null, "payed_at": null, "data": {}}\<newline>'',
    ''\<newline>'',
    ''DO NOT include any additional text, explanations, or formatting - ONLY the JSON object.\<newline>'']\<close>

definition EXTRACTION_PROMPT_photo :: string where
  \<comment> \<open>src/unnamed/part_001, lines 26-48\<close>
  \<open>EXTRACTION_PROMPT_photo = concat [
    ''You are a financial data extraction assistant. Your task is to extract financial information from messages and return it in a specific JSON format.\<newline>'',
    ''\<newline>'',
    ''When given a message or image, analyze it and extract:\<newline>'',
    ''- Payment amount (in numbers)\<newline>'',
    ''- Payment description\<newline>'',
    ''- Category (e.g., food, transport, utilities)\<newline>'',
    ''- Date (if mentioned)\<newline>'',
    ''\<newline>'',
    ''For images, look for receipts, invoices, or any text containing payment information.\<newline>'',
    ''\<newline>'',
    ''IMPORTANT: You must ONLY return a valid JSON object with the following structure:\<newline>'',
    ''{\<newline>'',
    ''  "value": <number>,\<newline>'',
    ''  "description": "<string>",\<newline>'',
    ''  "category": "<string>",\<newline>'',
    ''  "payed_at": "<ISO date string or null>",\<newline>'',
    ''  "data": {}\<newline>'',
    ''}\<newline>'',
    ''\<newline>'',
    ''If no financial information is found, return exactly: {"value": null, "description": null, "category": null, "payed_at": null, "data": {}}\<newline>'',
    ''\<newline>'',
    ''DO NOT include any additional text, explanations, or formatting - ONLY the JSON object.\<newline>'']\<close>

definition EXTRACTION_PROMPT_schema :: string where
  \<comment> \<open>src/unnamed/part_001, lines 246-256\<close>
  \<open>EXTRACTION_PROMPT_schema = concat [
    ''Extract financial information from the input.\<newline>'',
    ''\<newline>'',
    ''For images, look for receipts, invoices, or any text containing payment information.\<newline>'',
    ''For text messages, analyze the content for payment details.\<newline>'',
    ''\<newline>'',
    ''Focus on extracting:\<newline>'',
    ''- Payment amount (in numbers)\<newline>'',
    ''- Payment description\<newline>'',
    ''- Category (e.g., food, transport, utilities)\<newline>'',
    ''- Date (if mentioned)\<newline>'',
    ''- Additional details like location, merchant, payment method, or any relevant notes'']\<close>

definition EXTRACTION_PROMPT :: "variant \<Rightarrow> string" where
  "EXTRACTION_PROMPT v =
     (case v of
        TextOnly \<Rightarrow> EXTRACTION_PROMPT_index
      | WithPhotos \<Rightarrow> EXTRACTION_PROMPT_photo
      | WithSchema \<Rightarrow> EXTRACTION_PROMPT_schema)"

text \<open>The replies; the three files word them alike.\<close>

definition REPLY_RESEND :: string where
  \<open>REPLY_RESEND = ''Please send a text message or an image containing payment information.''\<close>

definition REPLY_NOT_UNDERSTOOD :: string where
  \<open>REPLY_NOT_UNDERSTOOD =
     ''Sorry, I couldn't understand the financial information in your message.''\<close>

definition REPLY_SAVE_ERROR :: string where
  \<open>REPLY_SAVE_ERROR = ''Sorry, there was an error saving your payment information.''\<close>

definition REPLY_NO_PAYMENT :: string where
  \<open>REPLY_NO_PAYMENT =
     ''I couldn't find any payment information in your message. Please make sure to include an amount and description.''\<close>

definition REPLY_PROCESSING_ERROR :: string where
  \<open>REPLY_PROCESSING_ERROR = ''Sorry, there was an error processing your message.''\<close>

text \<open>The first line of the confirmation: U+2705 in UTF-8, then the text and two newlines.\<close>

definition PAYMENT_RECORDED :: string where
  \<open>PAYMENT_RECORDED =
     [CHR 0xE2, CHR 0x9C, CHR 0x85] @ '' Payment recorded!\<newline>\<newline>''\<close>

text \<open>
  The confirmation of \<open>src/src/index.js\<close>, lines 94-100, and of
  \<open>src/unnamed/part_001\<close>, lines 75-81. The substitutions are converted in the order
  they are written; the date is built only when \<open>payed_at\<close> is truthy.
\<close>

definition confirmation_plain :: "'n env \<Rightarrow> 'n jsval \<Rightarrow> js_error + string" where
  \<open>confirmation_plain env financialData =
     bind_sum (ToString env (get_prop financialData ''value'')) (\<lambda>amount.
     bind_sum (ToString env (get_prop financialData ''description'')) (\<lambda>description.
     bind_sum (ToString env (get_prop financialData ''category'')) (\<lambda>category.
     bind_sum
       (if truthy env (get_prop financialData ''payed_at'')
        then bind_sum (Date_toLocaleDateString env (get_prop financialData ''payed_at''))
               (\<lambda>day. Inr (''\<newline>Date: '' @ day))
        else Inr []) (\<lambda>date.
     Inr (PAYMENT_RECORDED @
       ''Amount: $'' @ amount @ ''\<newline>'' @
       ''Description: '' @ description @ ''\<newline>'' @
       ''Category: '' @ category @ date)))))\<close>

text \<open>
  \<open>responseMessage\<close> of \<open>src/unnamed/part_001\<close>, lines 287-307: the first five lines,
  then one line for each truthy sub-field of a truthy \<open>data\<close>.
\<close>

definition optional_line :: "'n env \<Rightarrow> string \<Rightarrow> 'n jsval \<Rightarrow> js_error + string" where
  "optional_line env label x =
     (if truthy env x then bind_sum (ToString env x) (\<lambda>s. Inr (label @ s)) else Inr [])"

definition responseMessage :: "'n env \<Rightarrow> 'n jsval \<Rightarrow> js_error + string" where
  \<open>responseMessage env financialData =
     bind_sum (ToString env (get_prop financialData ''value'')) (\<lambda>amount.
     bind_sum (ToString env (get_prop financialData ''description'')) (\<lambda>description.
     bind_sum (ToString env (get_prop financialData ''category'')) (\<lambda>category.
     bind_sum (Date_toLocaleDateString env (get_prop financialData ''payed_at'')) (\<lambda>day.
     bind_sum
       (if truthy env (get_prop financialData ''data'')
        then
          bind_sum (optional_line env ''\<newline>Location: ''
            (get_prop (get_prop financialData ''data'') ''location'')) (\<lambda>location.
          bind_sum (optional_line env ''\<newline>Merchant: ''
            (get_prop (get_prop financialData ''data'') ''merchant'')) (\<lambda>merchant.
          bind_sum (optional_line env ''\<newline>Payment Method: ''
            (get_prop (get_prop financialData ''data'') ''payment_method'')) (\<lambda>method.
          bind_sum (optional_line env ''\<newline>Notes: ''
            (get_prop (get_prop financialData ''data'') ''notes'')) (\<lambda>notes.
          Inr (location @ merchant @ method @ notes)))))
        else Inr []) (\<lambda>details.
     Inr (PAYMENT_RECORDED @
       ''Amount: $'' @ amount @ ''\<newline>'' @
       ''Description: '' @ description @ ''\<newline>'' @
       ''Category: '' @ category @ ''\<newline>'' @
       ''Date: '' @ day @ details))))))\<close>

section \<open>Persisting a parsed result\<close>

text \<open>The object literal passed to \<open>insert\<close>, the same in the three files.\<close>

definition payment_row :: "'n jsval \<Rightarrow> 'n row" where
  "payment_row financialData =
     \<lparr>row_value = get_prop financialData ''value'',
      row_description = get_prop financialData ''description'',
      row_category = get_prop financialData ''category'',
      row_payed_at = get_prop financialData ''payed_at'',
      row_data = get_prop financialData ''data''\<rparr>"

text \<open>
  \<open>processFinancialData\<close> of \<open>src/unnamed/part_001\<close>, lines 51-89; lines 71-107 of
  \<open>src/src/index.js\<close> are the same statements inside the handler. The confirmation is
  the argument of \<open>sendMessage\<close>: when building it throws, \<open>sendMessage\<close> is not called.
\<close>

definition processFinancialData_plain :: "'n env \<Rightarrow> 'n jsval \<Rightarrow> int \<Rightarrow> ('n, unit) io" where
  "processFinancialData_plain env financialData chatId =
     (if truthy env financialData \<and> get_prop financialData ''value'' \<noteq> JNull then
        bind_io (insert_payment env (payment_row financialData)) (\<lambda>error.
          case error of
            Some err \<Rightarrow>
              bind_io (console_error ''Supabase error:'' (LogError err)) (\<lambda>_.
                sendMessage env chatId REPLY_SAVE_ERROR)
          | None \<Rightarrow>
              bind_io (lift_io (confirmation_plain env financialData)) (\<lambda>reply.
                sendMessage env chatId reply))
      else sendMessage env chatId REPLY_NO_PAYMENT)"

text \<open>
  \<open>processFinancialData\<close> of \<open>src/unnamed/part_001\<close>, lines 259-316. The assignment of
  line 263 changes \<open>financialData\<close> in place; the statements after it read the changed
  value, here \<open>fd\<close>.
\<close>

definition default_payed_at :: "'n env \<Rightarrow> 'n jsval \<Rightarrow> 'n jsval" where
  "default_payed_at env financialData =
     (if \<not> truthy env (get_prop financialData ''payed_at'')
      then set_prop financialData ''payed_at'' (JStr (now_toISOString env))
      else financialData)"

definition processFinancialData_schema :: "'n env \<Rightarrow> 'n jsval \<Rightarrow> int \<Rightarrow> ('n, unit) io" where
  "processFinancialData_schema env financialData chatId =
     (if truthy env financialData \<and> get_prop financialData ''value'' \<noteq> JNull then
        (let fd = default_payed_at env financialData in
         bind_io (insert_payment env (payment_row fd)) (\<lambda>error.
           case error of
             Some err \<Rightarrow>
               bind_io (console_error ''Supabase error:'' (LogError err)) (\<lambda>_.
                 sendMessage env chatId REPLY_SAVE_ERROR)
           | None \<Rightarrow>
               bind_io (lift_io (responseMessage env fd)) (\<lambda>reply.
                 sendMessage env chatId reply)))
      else sendMessage env chatId REPLY_NO_PAYMENT)"

definition processFinancialData :: "variant \<Rightarrow> 'n env \<Rightarrow> 'n jsval \<Rightarrow> int \<Rightarrow> ('n, unit) io" where
  "processFinancialData v =
     (case v of
        TextOnly \<Rightarrow> processFinancialData_plain
      | WithPhotos \<Rightarrow> processFinancialData_plain
      | WithSchema \<Rightarrow> processFinancialData_schema)"

section \<open>Fetching a photo\<close>

text \<open>
  \<open>Buffer.from(bytes).toString("base64")\<close>: the standard alphabet, three bytes to four
  characters, padded with \<open>=\<close>.
\<close>

definition base64_alphabet :: string where
  "base64_alphabet = ''ABCDEFGHIJKLMNOPQRSTUVWXYZabcdefghijklmnopqrstuvwxyz0123456789+/''"

definition base64_char :: "nat \<Rightarrow> char" where
  "base64_char n = base64_alphabet ! (n mod 64)"

fun toString_base64 :: "8 word list \<Rightarrow> string" where
  "toString_base64 [] = []"
| "toString_base64 [a] =
     [base64_char (unat a div 4), base64_char (unat a mod 4 * 16), CHR ''='', CHR ''='']"
| "toString_base64 [a, b] =
     [base64_char (unat a div 4), base64_char (unat a mod 4 * 16 + unat b div 16),
      base64_char (unat b mod 16 * 4), CHR ''='']"
| "toString_base64 (a # b # c # bs) =
     [base64_char (unat a div 4), base64_char (unat a mod 4 * 16 + unat b div 16),
      base64_char (unat b mod 16 * 4 + unat c div 64), base64_char (unat c mod 64)]
     @ toString_base64 bs"

text \<open>\<open>getImageAsBase64\<close>, \<open>src/unnamed/part_001\<close>, lines 92-95 and 319-322.\<close>

definition httpGet :: "'n env \<Rightarrow> string \<Rightarrow> ('n, 8 word list) io" where
  "httpGet env url = (\<lambda>st. (axios_get env url, st, [HttpGet url]))"

definition getImageAsBase64 :: "'n env \<Rightarrow> string \<Rightarrow> ('n, string) io" where
  "getImageAsBase64 env url =
     bind_io (httpGet env url) (\<lambda>response_data. return_io (toString_base64 response_data))"

text \<open>
  \<open>msg.photo[msg.photo.length - 1]\<close>: the last element, \<open>undefined\<close> (here \<open>None\<close>) when
  the array is empty.
\<close>

definition last_photo :: "photo_size list \<Rightarrow> photo_size option" where
  "last_photo ps = (if ps = [] then None else Some (last ps))"

definition fileUrl :: "'n env \<Rightarrow> file_info \<Rightarrow> string" where
  "fileUrl env fileInfo =
     ''https://api.telegram.org/file/bot'' @ TELEGRAM_BOT_TOKEN env @ ''/'' @
     (case file_path fileInfo of None \<Rightarrow> ''undefined'' | Some p \<Rightarrow> p)"

section \<open>The handler\<close>

text \<open>
  What is sent to the model. \<open>None\<close> is the early \<open>return\<close> after the reply that asks to
  send the message again.
  \<^item> \<open>src/src/index.js\<close>, line 51: the prompt and \<open>msg.text\<close>, whatever it is (an absent
    text concatenates as \<open>undefined\<close>);
  \<^item> \<open>src/unnamed/part_001\<close>, lines 100-130 and 327-358: a photo array, even an empty one,
    is truthy and takes the first branch, where reading \<open>file_id\<close> of an undefined last
    element throws a TypeError before \<open>getFile\<close> is called; an empty text is falsy.
\<close>

definition text_contents :: "variant \<Rightarrow> string \<Rightarrow> content" where
  \<open>text_contents v t =
     TextContent (EXTRACTION_PROMPT v @ ''\<newline>\<newline>Message to analyze: '' @ t)\<close>

definition image_contents :: "variant \<Rightarrow> string \<Rightarrow> content" where
  "image_contents v imageBase64 =
     ImageContent (EXTRACTION_PROMPT v)
       \<lparr>inlineData_data = imageBase64, inlineData_mimeType = ''image/jpeg''\<rparr>"

definition contents_index :: "'n env \<Rightarrow> message \<Rightarrow> ('n, content option) io" where
  "contents_index env msg =
     return_io (Some (text_contents TextOnly
       (case msg_text msg of None \<Rightarrow> ''undefined'' | Some t \<Rightarrow> t)))"

definition ask_to_resend :: "'n env \<Rightarrow> message \<Rightarrow> ('n, content option) io" where
  "ask_to_resend env msg =
     bind_io (sendMessage env (msg_chat_id msg) REPLY_RESEND) (\<lambda>_. return_io None)"

definition contents_photo :: "variant \<Rightarrow> 'n env \<Rightarrow> message \<Rightarrow> ('n, content option) io" where
  "contents_photo v env msg =
     (case msg_photo msg of
        Some photos \<Rightarrow>
          (case last_photo photos of
             None \<Rightarrow> throw_io (TypeError ''Cannot read properties of undefined (reading file_id)'')
           | Some photo \<Rightarrow>
               bind_io (getFile env (file_id photo)) (\<lambda>fileInfo.
               bind_io (getImageAsBase64 env (fileUrl env fileInfo)) (\<lambda>imageBase64.
               return_io (Some (image_contents v imageBase64)))))
      | None \<Rightarrow>
          (case msg_text msg of
             Some t \<Rightarrow>
               if t \<noteq> [] then return_io (Some (text_contents v t))
               else ask_to_resend env msg
           | None \<Rightarrow> ask_to_resend env msg))"

definition contents :: "variant \<Rightarrow> 'n env \<Rightarrow> message \<Rightarrow> ('n, content option) io" where
  "contents v env msg =
     (case v of
        TextOnly \<Rightarrow> contents_index env msg
      | WithPhotos \<Rightarrow> contents_photo WithPhotos env msg
      | WithSchema \<Rightarrow> contents_photo WithSchema env msg)"

text \<open>
  The call of the model and the log of its answer: \<open>src/src/index.js\<close>, lines 52-56, and
  \<open>src/unnamed/part_001\<close>, lines 132-136 (the text trimmed) and 361-370.
\<close>

definition response_text :: "variant \<Rightarrow> 'n env \<Rightarrow> content \<Rightarrow> ('n, string) io" where
  "response_text v env c =
     (case v of
        WithSchema \<Rightarrow>
          bind_io (generateContentSchema env c) (\<lambda>txt.
          bind_io (console_log ''Gemini response:'' (LogText txt)) (\<lambda>_. return_io txt))
      | _ \<Rightarrow>
          bind_io (generateContent env c) (\<lambda>raw.
          bind_io (console_log ''Gemini response:'' (LogText (trim env raw))) (\<lambda>_.
          return_io (trim env raw))))"

text \<open>
  The inner \<open>try\<close> around \<open>JSON.parse\<close> and the processing of its result:
  \<open>src/src/index.js\<close>, lines 58-107, \<open>src/unnamed/part_001\<close>, lines 138-151 and 372-385.
\<close>

definition parse_and_process :: "variant \<Rightarrow> 'n env \<Rightarrow> int \<Rightarrow> string \<Rightarrow> ('n, unit) io" where
  "parse_and_process v env chatId txt =
     (case JSON_parse env txt of
        Inl e \<Rightarrow>
          bind_io (console_error ''Failed to parse Gemini response:'' (LogError e)) (\<lambda>_.
          bind_io (console_error ''Raw response:'' (LogText txt)) (\<lambda>_.
          sendMessage env chatId REPLY_NOT_UNDERSTOOD))
      | Inr financialData \<Rightarrow> processFinancialData v env financialData chatId)"

definition try_block :: "variant \<Rightarrow> 'n env \<Rightarrow> message \<Rightarrow> ('n, unit) io" where
  "try_block v env msg =
     bind_io (contents v env msg) (\<lambda>c.
       case c of
         None \<Rightarrow> return_io ()
       | Some cs \<Rightarrow>
           bind_io (response_text v env cs) (parse_and_process v env (msg_chat_id msg)))"

definition catch_block :: "'n env \<Rightarrow> message \<Rightarrow> js_error \<Rightarrow> ('n, unit) io" where
  "catch_block env msg error =
     bind_io (console_error ''Error processing message:'' (LogError error)) (\<lambda>_.
       sendMessage env (msg_chat_id msg) REPLY_PROCESSING_ERROR)"

text \<open>
  The handler registered with \<open>bot.on("message", ...)\<close>. The result \<open>Inl e\<close> is a rejected
  promise: nothing awaits the handler, so it is an unhandled rejection.
\<close>

definition on_message :: "variant \<Rightarrow> 'n env \<Rightarrow> message \<Rightarrow> ('n, unit) io" where
  "on_message v env msg = try_catch (try_block v env msg) (catch_block env msg)"

section \<open>Reading the list of calls\<close>

fun reply_of :: "'n event \<Rightarrow> (int \<times> string) list" where
  "reply_of (SendMessage c t) = [(c, t)]"
| "reply_of _ = []"

fun insert_of :: "'n event \<Rightarrow> 'n row list" where
  "insert_of (Insert r) = [r]"
| "insert_of _ = []"

fun completion_of :: "'n event \<Rightarrow> content list" where
  "completion_of (GenerateContent c) = [c]"
| "completion_of (GenerateContentSchema c) = [c]"
| "completion_of _ = []"

definition replies :: "'n event list \<Rightarrow> (int \<times> string) list" where
  "replies evs = concat (map reply_of evs)"

definition inserts :: "'n event list \<Rightarrow> 'n row list" where
  "inserts evs = concat (map insert_of evs)"

definition completions :: "'n event list \<Rightarrow> content list" where
  "completions evs = concat (map completion_of evs)"

section \<open>Notions used in the statements\<close>

text \<open>
  The parsed value as the insert and the confirmation read it, and the confirmation, by
  revision.
\<close>

definition stored_record :: "variant \<Rightarrow> 'n env \<Rightarrow> 'n jsval \<Rightarrow> 'n jsval" where
  "stored_record v env financialData =
     (case v of WithSchema \<Rightarrow> default_payed_at env financialData | _ \<Rightarrow> financialData)"

definition confirmation :: "variant \<Rightarrow> 'n env \<Rightarrow> 'n jsval \<Rightarrow> js_error + string" where
  "confirmation v env fd =
     (case v of WithSchema \<Rightarrow> responseMessage env fd | _ \<Rightarrow> confirmation_plain env fd)"

text \<open>The calls of the \<open>catch\<close> block for the exception \<open>e\<close>.\<close>

definition catch_events :: "message \<Rightarrow> js_error \<Rightarrow> 'n event list" where
  "catch_events msg e =
     [ConsoleError ''Error processing message:'' (LogError e),
      SendMessage (msg_chat_id msg) REPLY_PROCESSING_ERROR]"

text \<open>
  The calls that follow a reply sent inside the \<open>try\<close> block: none when the send succeeds,
  those of the \<open>catch\<close> block when it fails.
\<close>

definition after_send :: "'n env \<Rightarrow> message \<Rightarrow> string \<Rightarrow> 'n event list" where
  "after_send env msg txt =
     (case bot_sendMessage env (msg_chat_id msg) txt of
        None \<Rightarrow> []
      | Some e \<Rightarrow> catch_events msg e)"

text \<open>
  The fields the confirmation renders are primitives, as the record the prompt asks for
  has them.
\<close>

definition primitive_fields :: "'n jsval \<Rightarrow> bool" where
  "primitive_fields fd =
     (primitive (get_prop fd ''value'') \<and>
      primitive (get_prop fd ''description'') \<and>
      primitive (get_prop fd ''category'') \<and>
      primitive (get_prop fd ''payed_at'') \<and>
      primitive (get_prop (get_prop fd ''data'') ''location'') \<and>
      primitive (get_prop (get_prop fd ''data'') ''merchant'') \<and>
      primitive (get_prop (get_prop fd ''data'') ''payment_method'') \<and>
      primitive (get_prop (get_prop fd ''data'') ''notes''))"

definition undefined_row :: "'n row" where
  "undefined_row =
     \<lparr>row_value = Undefined, row_description = Undefined, row_category = Undefined,
      row_payed_at = Undefined, row_data = Undefined\<rparr>"

text \<open>A reply is a confirmation when it starts with the first line of the confirmation.\<close>

definition is_confirmation :: "string \<Rightarrow> bool" where
  "is_confirmation reply = (take (length PAYMENT_RECORDED) reply = PAYMENT_RECORDED)"

definition confirmations :: "'n event list \<Rightarrow> (int \<times> string) list" where
  "confirmations evs = filter (\<lambda>p. is_confirmation (snd p)) (replies evs)"

text \<open>The generic error replies among the calls.\<close>

definition generic_replies :: "'n event list \<Rightarrow> (int \<times> string) list" where
  "generic_replies evs = filter (\<lambda>p. snd p = REPLY_PROCESSING_ERROR) (replies evs)"

section \<open>Demonstration inputs\<close>

definition lunch_json :: string where
  \<open>lunch_json =
     ''{"value":25.5,"description":"lunch","category":"food","payed_at":null,"data":{}}''\<close>

definition lunch :: "rat jsval" where
  "lunch = JObj [(''value'', JNum (51 / 2)), (''description'', JStr ''lunch''),
     (''category'', JStr ''food''), (''payed_at'', JNull), (''data'', JObj [])]"

definition null_json :: string where
  \<open>null_json =
     ''{"value": null, "description": null, "category": null, "payed_at": null, "data": {}}''\<close>

definition nothing_found :: "rat jsval" where
  "nothing_found = JObj [(''value'', JNull), (''description'', JNull),
     (''category'', JNull), (''payed_at'', JNull), (''data'', JObj [])]"

definition demo_env :: "rat env" where
  "demo_env =
     \<lparr>TELEGRAM_BOT_TOKEN = ''TOKEN'',
      num_falsy = (\<lambda>q. q = 0),
      num_to_string = (\<lambda>q. if q = 51 / 2 then ''25.5'' else ''7''),
      trim = (\<lambda>s. s),
      JSON_parse = (\<lambda>s. if s = lunch_json then Inr lunch
                          else if s = null_json then Inr nothing_found
                          else if s = ''7'' then Inr (JNum 7)
                          else if s = ''null'' then Inr JNull
                          else Inl (SyntaxError ''Unexpected token'')),
      now_toISOString = ''2025-03-01T12:00:00.000Z'',
      toLocaleDateString = (\<lambda>x. case x of Undefined \<Rightarrow> ''Invalid Date'' | _ \<Rightarrow> ''3/1/2025''),
      bot_getFile = (\<lambda>fid. Inr \<lparr>file_path = Some (''photos/'' @ fid @ ''.jpg'')\<rparr>),
      axios_get = (\<lambda>url. Inr [0xFF, 0xD8, 0xFF, 0xE0]),
      model_generateContent = (\<lambda>c. Inr lunch_json),
      ai_generateContent = (\<lambda>c. Inr lunch_json),
      supabase_insert = (\<lambda>r. Inr None),
      bot_sendMessage = (\<lambda>chatId txt. None)\<rparr>"

definition answering :: "string \<Rightarrow> rat env" where
  "answering txt = demo_env\<lparr>model_generateContent := (\<lambda>c. Inr txt),
     ai_generateContent := (\<lambda>c. Inr txt)\<rparr>"

definition save_fail_env :: "rat env" where
  "save_fail_env = demo_env\<lparr>supabase_insert := (\<lambda>r. Inr (Some (Rejected ''permission denied'')))\<rparr>"

definition outage_env :: "rat env" where
  "outage_env = demo_env\<lparr>model_generateContent := (\<lambda>c. Inl (Rejected ''fetch failed'')),
     ai_generateContent := (\<lambda>c. Inl (Rejected ''fetch failed'')),
     bot_sendMessage := (\<lambda>chatId txt. Some (Rejected ''EFATAL''))\<rparr>"

definition odd_json :: string where
  \<open>odd_json =
     ''{"value":7,"description":{"toString":7},"category":"food","payed_at":null,"data":{}}''\<close>

definition odd :: "rat jsval" where
  "odd = JObj [(''value'', JNum 7), (''description'', JObj [(''toString'', JNum 7)]),
     (''category'', JStr ''food''), (''payed_at'', JNull), (''data'', JObj [])]"

definition odd_env :: "rat env" where
  "odd_env = demo_env\<lparr>model_generateContent := (\<lambda>c. Inr odd_json),
     ai_generateContent := (\<lambda>c. Inr odd_json),
     JSON_parse := (\<lambda>s. if s = odd_json then Inr odd
                          else Inl (SyntaxError ''Unexpected token''))\<rparr>"

definition empty_body_env :: "rat env" where
  "empty_body_env = demo_env\<lparr>axios_get := (\<lambda>url. Inr [])\<rparr>"

definition text_msg :: message where
  \<open>text_msg = \<lparr>msg_chat_id = 42, msg_text = Some ''Spent $25.50 on lunch today'',
     msg_photo = None\<rparr>\<close>

definition photo_msg :: message where
  "photo_msg = \<lparr>msg_chat_id = 42, msg_text = None,
     msg_photo = Some [\<lparr>file_id = ''small''\<rparr>, \<lparr>file_id = ''large''\<rparr>]\<rparr>"

definition sticker_msg :: message where
  "sticker_msg = \<lparr>msg_chat_id = 42, msg_text = None, msg_photo = None\<rparr>"

definition empty_photo_msg :: message where
  "empty_photo_msg = \<lparr>msg_chat_id = 42, msg_text = Some ''hello'', msg_photo = Some []\<rparr>"

section \<open>The stages of the handler\<close>

lemmas io_defs =
  return_io_def throw_io_def bind_io_def try_catch_def console_log_def console_error_def
  sendMessage_def getFile_def httpGet_def generateContent_def generateContentSchema_def
  insert_payment_def lift_io_def

lemma replies_simps:
  "replies [] = []"
  "replies (SendMessage c t # evs) = (c, t) # replies evs"
  "replies (GetFile f # evs) = replies evs"
  "replies (HttpGet u # evs) = replies evs"
  "replies (GenerateContent k # evs) = replies evs"
  "replies (GenerateContentSchema k # evs) = replies evs"
  "replies (Insert r # evs) = replies evs"
  "replies (ConsoleLog l a # evs) = replies evs"
  "replies (ConsoleError l a # evs) = replies evs"
  "replies (xs @ ys) = replies xs @ replies ys"
  by (simp_all add: replies_def)

lemma inserts_simps:
  "inserts [] = []"
  "inserts (Insert r # evs) = r # inserts evs"
  "inserts (SendMessage c t # evs) = inserts evs"
  "inserts (GetFile f # evs) = inserts evs"
  "inserts (HttpGet u # evs) = inserts evs"
  "inserts (GenerateContent k # evs) = inserts evs"
  "inserts (GenerateContentSchema k # evs) = inserts evs"
  "inserts (ConsoleLog l a # evs) = inserts evs"
  "inserts (ConsoleError l a # evs) = inserts evs"
  "inserts (xs @ ys) = inserts xs @ inserts ys"
  by (simp_all add: inserts_def)

lemma completions_simps:
  "completions [] = []"
  "completions (GenerateContent k # evs) = k # completions evs"
  "completions (GenerateContentSchema k # evs) = k # completions evs"
  "completions (SendMessage c t # evs) = completions evs"
  "completions (GetFile f # evs) = completions evs"
  "completions (HttpGet u # evs) = completions evs"
  "completions (Insert r # evs) = completions evs"
  "completions (ConsoleLog l a # evs) = completions evs"
  "completions (ConsoleError l a # evs) = completions evs"
  "completions (xs @ ys) = completions xs @ completions ys"
  by (simp_all add: completions_def)

lemmas trace_simps = replies_simps inserts_simps completions_simps

lemma after_send_simps:
  "replies (after_send env msg txt) =
     (if bot_sendMessage env (msg_chat_id msg) txt = None then []
      else [(msg_chat_id msg, REPLY_PROCESSING_ERROR)])"
  "inserts (after_send env msg txt) = []"
  "completions (after_send env msg txt) = []"
  by (simp_all add: after_send_def catch_events_def trace_simps split: option.splits)

lemma catch_events_simps:
  "replies (catch_events msg e) = [(msg_chat_id msg, REPLY_PROCESSING_ERROR)]"
  "inserts (catch_events msg e) = []"
  "completions (catch_events msg e) = []"
  by (simp_all add: catch_events_def trace_simps)

text \<open>A successful first stage made no reply, no insert and no call of the model.\<close>

lemma contents_Some:
  assumes "contents v env msg st = (Inr (Some c), st1, ev1)"
  shows "st1 = st \<and> replies ev1 = [] \<and> inserts ev1 = [] \<and> completions ev1 = []"
  using assms
  by (cases v)
     (auto simp: contents_def contents_index_def contents_photo_def ask_to_resend_def
        getImageAsBase64_def io_defs trace_simps
        split: option.splits sum.splits if_splits)

lemma response_text_Inr:
  assumes "response_text v env c st1 = (Inr txt, st2, ev2)"
  shows "st2 = st1 \<and> replies ev2 = [] \<and> inserts ev2 = [] \<and> completions ev2 = [c]"
  using assms
  by (cases v) (auto simp: response_text_def io_defs trace_simps split: sum.splits)

text \<open>The \<open>catch\<close> block around a computation.\<close>

lemma try_catch_run:
  "try_catch m (catch_block env msg) st =
     (case m st of
        (Inr x, st1, ev) \<Rightarrow> (Inr x, st1, ev)
      | (Inl e, st1, ev) \<Rightarrow>
          (send_result env (msg_chat_id msg) REPLY_PROCESSING_ERROR, st1,
           ev @ catch_events msg e))"
  by (simp add: catch_block_def catch_events_def io_defs split: prod.splits sum.splits)

text \<open>Once the model has answered, the handler is the rest of the \<open>try\<close> block under the
  same \<open>catch\<close>.\<close>

lemma on_message_answered:
  assumes "contents v env msg st = (Inr (Some c), st1, ev1)"
      and "response_text v env c st1 = (Inr txt, st2, ev2)"
  shows "on_message v env msg st =
     (case try_catch (parse_and_process v env (msg_chat_id msg) txt) (catch_block env msg) st of
        (r, st3, ev3) \<Rightarrow> (r, st3, ev1 @ ev2 @ ev3))"
proof -
  have "st1 = st" "st2 = st"
    using contents_Some [OF assms(1)] response_text_Inr [OF assms(2)] by simp_all
  with assms show ?thesis
    by (auto simp: on_message_def try_block_def bind_io_def try_catch_def return_io_def
          split: sum.splits prod.splits)
qed

text \<open>The ways through \<open>processFinancialData\<close>.\<close>

lemma processFinancialData_run:
  "processFinancialData v env fd chatId st =
     (if truthy env fd \<and> get_prop fd ''value'' \<noteq> JNull then
        (case supabase_insert env (payment_row (stored_record v env fd)) of
           Inl e \<Rightarrow> (Inl e, st, [Insert (payment_row (stored_record v env fd))])
         | Inr (Some err) \<Rightarrow>
             (send_result env chatId REPLY_SAVE_ERROR, st,
              [Insert (payment_row (stored_record v env fd)),
               ConsoleError ''Supabase error:'' (LogError err),
               SendMessage chatId REPLY_SAVE_ERROR])
         | Inr None \<Rightarrow>
             (case confirmation v env (stored_record v env fd) of
                Inl e \<Rightarrow>
                  (Inl e, st @ [payment_row (stored_record v env fd)],
                   [Insert (payment_row (stored_record v env fd))])
              | Inr reply \<Rightarrow>
                  (send_result env chatId reply,
                   st @ [payment_row (stored_record v env fd)],
                   [Insert (payment_row (stored_record v env fd)),
                    SendMessage chatId reply])))
      else (send_result env chatId REPLY_NO_PAYMENT, st, [SendMessage chatId REPLY_NO_PAYMENT]))"
  by (cases v)
     (simp_all add: processFinancialData_def processFinancialData_plain_def
        processFinancialData_schema_def stored_record_def confirmation_def io_defs Let_def
        split: sum.splits option.splits)

text \<open>The wording of the replies.\<close>

lemma reply_wording:
  \<open>REPLY_RESEND = ''Please send a text message or an image containing payment information.''\<close>
  \<open>REPLY_NOT_UNDERSTOOD =
     ''Sorry, I couldn't understand the financial information in your message.''\<close>
  \<open>REPLY_SAVE_ERROR = ''Sorry, there was an error saving your payment information.''\<close>
  \<open>REPLY_NO_PAYMENT =
     ''I couldn't find any payment information in your message. Please make sure to include an amount and description.''\<close>
  \<open>REPLY_PROCESSING_ERROR = ''Sorry, there was an error processing your message.''\<close>
  by (simp_all add: REPLY_RESEND_def REPLY_NOT_UNDERSTOOD_def REPLY_SAVE_ERROR_def
        REPLY_NO_PAYMENT_def REPLY_PROCESSING_ERROR_def)

text \<open>A confirmation that could be built starts with the line that payment was recorded.\<close>

lemma confirmation_shape:
  assumes "confirmation v env fd = Inr reply"
  shows "\<exists>amount description category rest.
           ToString env (get_prop fd ''value'') = Inr amount \<and>
           ToString env (get_prop fd ''description'') = Inr description \<and>
           ToString env (get_prop fd ''category'') = Inr category \<and>
           reply = PAYMENT_RECORDED @ ''Amount: $'' @ amount @
             ''\<newline>Description: '' @ description @
             ''\<newline>Category: '' @ category @ rest"
  using assms
  by (cases v)
     (auto simp: confirmation_def confirmation_plain_def responseMessage_def bind_sum_def
        split: sum.splits if_splits)

text \<open>The replies are told apart by their first characters.\<close>

lemma is_confirmation_simps:
  "confirmation v env fd = Inr reply \<Longrightarrow> is_confirmation reply"
  "\<not> is_confirmation REPLY_RESEND"
  "\<not> is_confirmation REPLY_NOT_UNDERSTOOD"
  "\<not> is_confirmation REPLY_SAVE_ERROR"
  "\<not> is_confirmation REPLY_NO_PAYMENT"
  "\<not> is_confirmation REPLY_PROCESSING_ERROR"
proof -
  show "confirmation v env fd = Inr reply \<Longrightarrow> is_confirmation reply"
    using confirmation_shape [of v env fd reply] by (auto simp: is_confirmation_def)
qed (simp_all add: is_confirmation_def PAYMENT_RECORDED_def REPLY_RESEND_def
       REPLY_NOT_UNDERSTOOD_def REPLY_SAVE_ERROR_def REPLY_NO_PAYMENT_def
       REPLY_PROCESSING_ERROR_def)

lemma confirmation_not_error:
  "confirmation v env fd = Inr reply \<Longrightarrow> reply \<noteq> REPLY_PROCESSING_ERROR"
  "confirmation v env fd = Inr reply \<Longrightarrow> reply \<noteq> REPLY_SAVE_ERROR"
  using is_confirmation_simps by metis+

text \<open>Primitives always convert, so a record with primitive fields always renders.\<close>

lemma ToString_primitive: "primitive x \<Longrightarrow> \<exists>s. ToString env x = Inr s"
  by (cases x) simp_all

lemma Date_primitive: "primitive x \<Longrightarrow> \<exists>s. Date_toLocaleDateString env x = Inr s"
  by (simp add: Date_toLocaleDateString_def ToPrimitive_def)

lemma optional_line_primitive: "primitive x \<Longrightarrow> \<exists>s. optional_line env label x = Inr s"
  using ToString_primitive [of x env] by (auto simp: optional_line_def bind_sum_def)

lemma reply_texts_distinct:
  "REPLY_RESEND \<noteq> REPLY_PROCESSING_ERROR"
  "REPLY_NOT_UNDERSTOOD \<noteq> REPLY_PROCESSING_ERROR"
  "REPLY_SAVE_ERROR \<noteq> REPLY_PROCESSING_ERROR"
  "REPLY_NO_PAYMENT \<noteq> REPLY_PROCESSING_ERROR"
  by (simp_all add: REPLY_RESEND_def REPLY_NOT_UNDERSTOOD_def REPLY_SAVE_ERROR_def
        REPLY_NO_PAYMENT_def REPLY_PROCESSING_ERROR_def)

lemma confirmations_simps:
  "confirmations [] = []"
  "confirmations (xs @ ys) = confirmations xs @ confirmations ys"
  "confirmations (SendMessage c t # evs) =
     (if is_confirmation t then (c, t) # confirmations evs else confirmations evs)"
  "confirmations (Insert r # evs) = confirmations evs"
  "confirmations (ConsoleError l a # evs) = confirmations evs"
  "confirmations (after_send env msg reply) = []"
  "confirmations (catch_events msg e) = []"
  by (simp_all add: confirmations_def trace_simps after_send_simps catch_events_simps
        is_confirmation_simps)

text \<open>Reading a property after the defaulting of line 263.\<close>

lemma get_prop_default_payed_at:
  "get_prop (default_payed_at env fd) k =
     (if k = ''payed_at'' \<and> \<not> truthy env (get_prop fd ''payed_at'') \<and> \<not> primitive fd
      then JStr (now_toISOString env) else get_prop fd k)"
  by (cases fd) (simp_all add: default_payed_at_def update_conv')

lemma get_prop_stored_record:
  "get_prop (stored_record v env fd) k =
     (if v = WithSchema \<and> k = ''payed_at'' \<and> \<not> truthy env (get_prop fd ''payed_at'') \<and>
         \<not> primitive fd
      then JStr (now_toISOString env) else get_prop fd k)"
  by (cases v) (simp_all add: stored_record_def get_prop_default_payed_at)

lemma get_prop_primitive: "primitive fd \<Longrightarrow> get_prop fd k = Undefined"
  by (cases fd) simp_all

text \<open>The handler once the answer of the model has parsed.\<close>

lemma on_message_processed:
  assumes "contents v env msg st = (Inr (Some c), st1, ev1)"
      and "response_text v env c st1 = (Inr txt, st2, ev2)"
      and "JSON_parse env txt = Inr fd"
  shows "on_message v env msg st =
     (case processFinancialData v env fd (msg_chat_id msg) st of
        (Inr x, st3, ev3) \<Rightarrow> (Inr (), st3, ev1 @ ev2 @ ev3)
      | (Inl e, st3, ev3) \<Rightarrow>
          (send_result env (msg_chat_id msg) REPLY_PROCESSING_ERROR, st3,
           ev1 @ ev2 @ ev3 @ catch_events msg e))"
  using assms(3)
  by (simp add: on_message_answered [OF assms(1) assms(2)] try_catch_run
        parse_and_process_def split: prod.splits sum.splits)

lemma parse_failure_run:
  assumes "JSON_parse env txt = Inl e"
  shows "parse_and_process v env chatId txt st =
     (send_result env chatId REPLY_NOT_UNDERSTOOD, st,
      [ConsoleError ''Failed to parse Gemini response:'' (LogError e),
       ConsoleError ''Raw response:'' (LogText txt),
       SendMessage chatId REPLY_NOT_UNDERSTOOD])"
  using assms
  by (simp add: parse_and_process_def bind_io_def console_error_def sendMessage_def)

lemma after_send_None:
  "bot_sendMessage env (msg_chat_id msg) reply = None \<Longrightarrow> after_send env msg reply = []"
  by (simp add: after_send_def)

text \<open>Sequencing, read backwards.\<close>

lemma bind_io_cases:
  assumes "bind_io m k st = (res, st', evs)"
  obtains (stop) e where "m st = (Inl e, st', evs)" and "res = Inl e"
  | (continue) x s1 ev1 ev2 where "m st = (Inr x, s1, ev1)" and "k x s1 = (res, st', ev2)"
      and "evs = ev1 @ ev2"
  using assms by (auto simp: bind_io_def split: prod.splits sum.splits)

lemma generic_replies_simps:
  "generic_replies [] = []"
  "generic_replies (xs @ ys) = generic_replies xs @ generic_replies ys"
  "generic_replies (SendMessage k t # evs) =
     (if t = REPLY_PROCESSING_ERROR then (k, t) # generic_replies evs else generic_replies evs)"
  "generic_replies (Insert r # evs) = generic_replies evs"
  "generic_replies (ConsoleError l a # evs) = generic_replies evs"
  "generic_replies (ConsoleLog l a # evs) = generic_replies evs"
  "generic_replies (GetFile f # evs) = generic_replies evs"
  "generic_replies (HttpGet u # evs) = generic_replies evs"
  "generic_replies (GenerateContent c # evs) = generic_replies evs"
  "generic_replies (GenerateContentSchema c # evs) = generic_replies evs"
  "generic_replies (catch_events msg e) = [(msg_chat_id msg, REPLY_PROCESSING_ERROR)]"
  by (simp_all add: generic_replies_def trace_simps catch_events_simps)

text \<open>The calls of each stage, whatever its outcome.\<close>

lemma contents_calls:
  assumes "contents v env msg st = (res, st1, ev)"
  shows "st1 = st \<and> completions ev = [] \<and> inserts ev = [] \<and> generic_replies ev = []"
  using assms reply_texts_distinct(1)
  by (cases v)
     (auto simp: contents_def contents_index_def contents_photo_def ask_to_resend_def
        getImageAsBase64_def io_defs trace_simps generic_replies_simps
        split: option.splits sum.splits if_splits)

lemma response_text_calls:
  assumes "response_text v env c st = (res, st1, ev)"
  shows "st1 = st \<and> completions ev = [c] \<and> inserts ev = [] \<and> generic_replies ev = []"
  using assms
  by (cases v)
     (auto simp: response_text_def io_defs trace_simps generic_replies_simps
        split: sum.splits)

lemma processFinancialData_calls:
  assumes "processFinancialData v env fd chatId st = (res, st1, ev)"
  shows "completions ev = [] \<and> generic_replies ev = []"
  using assms reply_texts_distinct confirmation_not_error(1) [of v env "stored_record v env fd"]
  by (auto simp: processFinancialData_run trace_simps generic_replies_simps
        split: sum.splits option.splits if_splits)

lemma parse_and_process_calls:
  assumes "parse_and_process v env chatId txt st = (res, st1, ev)"
  shows "completions ev = [] \<and> generic_replies ev = []"
proof (cases "JSON_parse env txt")
  case (Inl e)
  then show ?thesis
    using assms reply_texts_distinct(2)
    by (auto simp: parse_failure_run trace_simps generic_replies_simps)
next
  case (Inr fd)
  then show ?thesis
    using assms processFinancialData_calls [of v env fd chatId st res st1 ev]
    by (simp add: parse_and_process_def)
qed

lemma try_block_calls:
  assumes "try_block v env msg st = (res, st1, ev)"
  shows "generic_replies ev = []"
  using assms unfolding try_block_def
proof (cases rule: bind_io_cases)
  case (stop e)
  then show ?thesis
    using contents_calls by blast
next
  case (continue x s1 ev1 ev2)
  note first = contents_calls [OF continue(1)]
  show ?thesis
  proof (cases x)
    case None
    with continue first show ?thesis
      by (simp add: return_io_def generic_replies_simps)
  next
    case (Some cs)
    with continue(2)
    have "bind_io (response_text v env cs) (parse_and_process v env (msg_chat_id msg)) s1 =
        (res, st1, ev2)"
      by simp
    then have "generic_replies ev2 = []"
    proof (cases rule: bind_io_cases)
      case (stop e)
      then show ?thesis
        using response_text_calls by blast
    next
      case (continue answer s2 ev3 ev4)
      then show ?thesis
        using response_text_calls [OF continue(1)] parse_and_process_calls [OF continue(2)]
        by (simp add: generic_replies_simps)
    qed
    with continue(3) first show ?thesis
      by (simp add: generic_replies_simps)
  qed
qed

text \<open>After a first stage that produced contents, the model is called once, with them.\<close>

lemma on_message_contents:
  assumes "contents v env msg st = (Inr (Some c), st1, ev1)"
      and "on_message v env msg st = (r, st', evs)"
  shows "take (length ev1) evs = ev1 \<and> completions evs = [c]"
proof -
  have first: "completions ev1 = []"
    using contents_calls [OF assms(1)] by simp
  obtain res2 s2 ev2 where rt: "response_text v env c st1 = (res2, s2, ev2)"
    by (cases "response_text v env c st1") blast
  have second: "completions ev2 = [c]"
    using response_text_calls [OF rt] by simp
  show ?thesis
  proof (cases res2)
    case (Inl e)
    with assms rt first second show ?thesis
      by (auto simp: on_message_def try_catch_run try_block_def bind_io_def trace_simps
            catch_events_simps)
  next
    case (Inr answer)
    obtain res3 s3 ev3 where
      pp: "parse_and_process v env (msg_chat_id msg) answer s2 = (res3, s3, ev3)"
      by (cases "parse_and_process v env (msg_chat_id msg) answer s2") blast
    have third: "completions ev3 = []"
      using parse_and_process_calls [OF pp] by simp
    from assms rt Inr pp first second third show ?thesis
      by (cases res3)
         (auto simp: on_message_def try_catch_run try_block_def bind_io_def trace_simps
            catch_events_simps)
  qed
qed

lemma toString_base64_empty: "toString_base64 bytes = [] \<longleftrightarrow> bytes = []"
  by (cases bytes rule: toString_base64.cases) simp_all

lemma confirmation_renders:
  assumes "primitive_fields x"
  shows "\<exists>reply. confirmation v env x = Inr reply"
proof -
  have p: "primitive (get_prop x ''value'')" "primitive (get_prop x ''description'')"
      "primitive (get_prop x ''category'')" "primitive (get_prop x ''payed_at'')"
      "primitive (get_prop (get_prop x ''data'') ''location'')"
      "primitive (get_prop (get_prop x ''data'') ''merchant'')"
      "primitive (get_prop (get_prop x ''data'') ''payment_method'')"
      "primitive (get_prop (get_prop x ''data'') ''notes'')"
    using assms by (simp_all add: primitive_fields_def)
  obtain a where a: "ToString env (get_prop x ''value'') = Inr a"
    using ToString_primitive [OF p(1)] by blast
  obtain d where d: "ToString env (get_prop x ''description'') = Inr d"
    using ToString_primitive [OF p(2)] by blast
  obtain c where c: "ToString env (get_prop x ''category'') = Inr c"
    using ToString_primitive [OF p(3)] by blast
  obtain day where day: "Date_toLocaleDateString env (get_prop x ''payed_at'') = Inr day"
    using Date_primitive [OF p(4)] by blast
  obtain l where l: "optional_line env ''\<newline>Location: ''
      (get_prop (get_prop x ''data'') ''location'') = Inr l"
    using optional_line_primitive [OF p(5)] by blast
  obtain m where m: "optional_line env ''\<newline>Merchant: ''
      (get_prop (get_prop x ''data'') ''merchant'') = Inr m"
    using optional_line_primitive [OF p(6)] by blast
  obtain pm where pm: "optional_line env ''\<newline>Payment Method: ''
      (get_prop (get_prop x ''data'') ''payment_method'') = Inr pm"
    using optional_line_primitive [OF p(7)] by blast
  obtain n where n: "optional_line env ''\<newline>Notes: ''
      (get_prop (get_prop x ''data'') ''notes'') = Inr n"
    using optional_line_primitive [OF p(8)] by blast
  show ?thesis
    by (cases v)
       (simp_all add: confirmation_def confirmation_plain_def responseMessage_def
          bind_sum_def a d c day l m pm n)
qed

lemma confirmation_primitive_fields:
  assumes "primitive_fields fd"
  shows "\<exists>reply. confirmation v env (stored_record v env fd) = Inr reply"
proof -
  have "primitive_fields (stored_record v env fd)"
    using assms by (simp add: primitive_fields_def get_prop_stored_record)
  then show ?thesis
    by (rule confirmation_renders)
qed

text \<open>The phrases by which the replies are known.\<close>

lemma reply_contains:
  \<open>\<exists>before after. REPLY_NO_PAYMENT =
     before @ ''couldn't find any payment information'' @ after\<close>
  \<open>\<exists>before after. REPLY_NOT_UNDERSTOOD = before @ ''couldn't understand'' @ after\<close>
  \<open>\<exists>before after. REPLY_SAVE_ERROR = before @ ''error saving'' @ after\<close>
  \<open>\<exists>before after. REPLY_PROCESSING_ERROR =
     before @ ''error processing your message'' @ after\<close>
proof -
  show \<open>\<exists>before after. REPLY_NO_PAYMENT =
     before @ ''couldn't find any payment information'' @ after\<close>
    by (rule exI [of _ "''I ''"],
        rule exI [of _ "'' in your message. Please make sure to include an amount and description.''"])
       (simp add: REPLY_NO_PAYMENT_def)
  show \<open>\<exists>before after. REPLY_NOT_UNDERSTOOD = before @ ''couldn't understand'' @ after\<close>
    by (rule exI [of _ "''Sorry, I ''"],
        rule exI [of _ "'' the financial information in your message.''"])
       (simp add: REPLY_NOT_UNDERSTOOD_def)
  show \<open>\<exists>before after. REPLY_SAVE_ERROR = before @ ''error saving'' @ after\<close>
    by (rule exI [of _ "''Sorry, there was an ''"],
        rule exI [of _ "'' your payment information.''"])
       (simp add: REPLY_SAVE_ERROR_def)
  show \<open>\<exists>before after. REPLY_PROCESSING_ERROR =
     before @ ''error processing your message'' @ after\<close>
    by (rule exI [of _ "''Sorry, there was an ''"], rule exI [of _ "''.''"])
       (simp add: REPLY_PROCESSING_ERROR_def)
qed

text \<open>
  The \<open>catch\<close> block catches every exception of the \<open>try\<close> block, which itself never sends
  the generic reply; only an exception of the send inside the \<open>catch\<close> block leaves the
  handler.
\<close>

lemma try_block_exceptions_are_caught:
  assumes "try_block v env msg st = (res, st1, ev)"
  shows "generic_replies ev = [] \<and>
     (\<forall>e. res = Inl e \<longrightarrow>
        on_message v env msg st =
          (send_result env (msg_chat_id msg) REPLY_PROCESSING_ERROR, st1,
           ev @ [ConsoleError ''Error processing message:'' (LogError e),
                 SendMessage (msg_chat_id msg) REPLY_PROCESSING_ERROR]) \<and>
        generic_replies (snd (snd (on_message v env msg st))) =
          [(msg_chat_id msg, REPLY_PROCESSING_ERROR)]) \<and>
     (res = Inr () \<longrightarrow> on_message v env msg st = (Inr (), st1, ev)) \<and>
     (bot_sendMessage env (msg_chat_id msg) REPLY_PROCESSING_ERROR = None \<longrightarrow>
        fst (on_message v env msg st) = Inr ()) \<and>
     (\<forall>e'. fst (on_message v env msg st) = Inl e' \<longrightarrow>
        bot_sendMessage env (msg_chat_id msg) REPLY_PROCESSING_ERROR = Some e')"
proof -
  have none: "generic_replies ev = []"
    using try_block_calls [OF assms] .
  have run: "on_message v env msg st =
      (case res of
         Inr x \<Rightarrow> (Inr x, st1, ev)
       | Inl e \<Rightarrow> (send_result env (msg_chat_id msg) REPLY_PROCESSING_ERROR, st1,
           ev @ catch_events msg e))"
    using assms by (simp add: on_message_def try_catch_run split: sum.splits)
  show ?thesis
    using none
    by (cases res)
       (auto simp: run catch_events_def generic_replies_simps send_result_def
          split: option.splits)
qed

section \<open>The claims\<close>

text \<open>
  C1, as stated, fails in two ways. On the revision with the response schema, the parsed
  record of the lunch message has \<open>payed_at\<close> null, the insert succeeds, and the row that
  is inserted carries the current time as \<open>payed_at\<close>, not the null of the parsed record.
  And on every revision (here \<open>src/src/index.js\<close>) a parsed record whose \<open>description\<close> is
  an object with a property \<open>toString\<close> has \<open>value\<close> 7, the insert succeeds and the row is
  stored, but the template literal of the confirmation throws a TypeError: no
  confirmation is sent, and the \<open>catch\<close> block sends the generic error reply.
\<close>

theorem stored_but_not_as_parsed_or_not_confirmed:
  "JSON_parse demo_env lunch_json = Inr lunch \<and>
   get_prop lunch ''value'' = JNum (51 / 2) \<and>
   get_prop lunch ''payed_at'' = JNull \<and>
   on_message WithSchema demo_env text_msg [] =
     (Inr (),
      [\<lparr>row_value = JNum (51 / 2), row_description = JStr ''lunch'',
         row_category = JStr ''food'', row_payed_at = JStr ''2025-03-01T12:00:00.000Z'',
         row_data = JObj []\<rparr>],
      [GenerateContentSchema (text_contents WithSchema ''Spent $25.50 on lunch today''),
       ConsoleLog ''Gemini response:'' (LogText lunch_json),
       Insert \<lparr>row_value = JNum (51 / 2), row_description = JStr ''lunch'',
         row_category = JStr ''food'', row_payed_at = JStr ''2025-03-01T12:00:00.000Z'',
         row_data = JObj []\<rparr>,
       SendMessage 42 (PAYMENT_RECORDED @
         ''Amount: $25.5\<newline>Description: lunch\<newline>Category: food\<newline>Date: 3/1/2025'')]) \<and>
   JStr ''2025-03-01T12:00:00.000Z'' \<noteq> get_prop lunch ''payed_at'' \<and>
   JSON_parse odd_env odd_json = Inr odd \<and>
   get_prop odd ''value'' = JNum 7 \<and>
   get_prop odd ''description'' = JObj [(''toString'', JNum 7)] \<and>
   on_message TextOnly odd_env text_msg [] =
     (Inr (),
      [\<lparr>row_value = JNum 7, row_description = JObj [(''toString'', JNum 7)],
         row_category = JStr ''food'', row_payed_at = JNull, row_data = JObj []\<rparr>],
      [GenerateContent (text_contents TextOnly ''Spent $25.50 on lunch today''),
       ConsoleLog ''Gemini response:'' (LogText odd_json),
       Insert \<lparr>row_value = JNum 7, row_description = JObj [(''toString'', JNum 7)],
         row_category = JStr ''food'', row_payed_at = JNull, row_data = JObj []\<rparr>,
       ConsoleError ''Error processing message:''
         (LogError (TypeError ''Cannot convert object to primitive value'')),
       SendMessage 42 ''Sorry, there was an error processing your message.''])"
proof -
  have h1: "contents WithSchema demo_env text_msg [] =
      (Inr (Some (text_contents WithSchema ''Spent $25.50 on lunch today'')), [], [])"
    by (simp add: contents_def contents_photo_def text_msg_def io_defs)
  have h2: "response_text WithSchema demo_env
        (text_contents WithSchema ''Spent $25.50 on lunch today'') [] =
      (Inr lunch_json, [],
       [GenerateContentSchema (text_contents WithSchema ''Spent $25.50 on lunch today''),
        ConsoleLog ''Gemini response:'' (LogText lunch_json)])"
    by (simp add: response_text_def demo_env_def io_defs)
  have h3: "JSON_parse demo_env lunch_json = Inr lunch"
    by (simp add: demo_env_def)
  have row: "payment_row (stored_record WithSchema demo_env lunch) =
      \<lparr>row_value = JNum (51 / 2), row_description = JStr ''lunch'',
        row_category = JStr ''food'', row_payed_at = JStr ''2025-03-01T12:00:00.000Z'',
        row_data = JObj []\<rparr>"
    by (simp add: payment_row_def get_prop_stored_record)
       (simp add: lunch_def demo_env_def)
  have reply: "confirmation WithSchema demo_env (stored_record WithSchema demo_env lunch) =
      Inr (PAYMENT_RECORDED @
        ''Amount: $25.5\<newline>Description: lunch\<newline>Category: food\<newline>Date: 3/1/2025'')"
    by (simp add: confirmation_def responseMessage_def optional_line_def bind_sum_def
          Date_toLocaleDateString_def ToPrimitive_def stored_record_def
          default_payed_at_def lunch_def demo_env_def)
  have q: "truthy demo_env lunch" "get_prop lunch ''value'' \<noteq> JNull"
    by (simp_all add: lunch_def)
  have ins: "supabase_insert demo_env x = Inr None" for x
    by (simp add: demo_env_def)
  have snd: "bot_sendMessage demo_env k answer = None" for k answer
    by (simp add: demo_env_def)
  have chat: "msg_chat_id text_msg = 42"
    by (simp add: text_msg_def)
  have first: "on_message WithSchema demo_env text_msg [] =
      (Inr (),
       [payment_row (stored_record WithSchema demo_env lunch)],
       [GenerateContentSchema (text_contents WithSchema ''Spent $25.50 on lunch today''),
        ConsoleLog ''Gemini response:'' (LogText lunch_json),
        Insert (payment_row (stored_record WithSchema demo_env lunch)),
        SendMessage 42 (PAYMENT_RECORDED @
          ''Amount: $25.5\<newline>Description: lunch\<newline>Category: food\<newline>Date: 3/1/2025'')])"
    by (simp add: on_message_processed [OF h1 h2 h3] processFinancialData_run
          send_result_def q ins snd chat reply)
  have o1: "contents TextOnly odd_env text_msg [] =
      (Inr (Some (text_contents TextOnly ''Spent $25.50 on lunch today'')), [], [])"
    by (simp add: contents_def contents_index_def text_msg_def io_defs)
  have o2: "response_text TextOnly odd_env
        (text_contents TextOnly ''Spent $25.50 on lunch today'') [] =
      (Inr odd_json, [],
       [GenerateContent (text_contents TextOnly ''Spent $25.50 on lunch today''),
        ConsoleLog ''Gemini response:'' (LogText odd_json)])"
    by (simp add: response_text_def odd_env_def demo_env_def io_defs)
  have o3: "JSON_parse odd_env odd_json = Inr odd"
    by (simp add: odd_env_def demo_env_def)
  have orow: "payment_row (stored_record TextOnly odd_env odd) =
      \<lparr>row_value = JNum 7, row_description = JObj [(''toString'', JNum 7)],
        row_category = JStr ''food'', row_payed_at = JNull, row_data = JObj []\<rparr>"
    by (simp add: payment_row_def stored_record_def odd_def)
  have othrow: "confirmation TextOnly odd_env (stored_record TextOnly odd_env odd) =
      Inl (TypeError ''Cannot convert object to primitive value'')"
    by (simp add: confirmation_def confirmation_plain_def bind_sum_def stored_record_def
          NOT_PRIMITIVE_def odd_def)
  have oq: "truthy odd_env odd" "get_prop odd ''value'' \<noteq> JNull"
    by (simp_all add: odd_def)
  have oins: "supabase_insert odd_env x = Inr None" for x
    by (simp add: odd_env_def demo_env_def)
  have osnd: "bot_sendMessage odd_env k answer = None" for k answer
    by (simp add: odd_env_def demo_env_def)
  have second: "on_message TextOnly odd_env text_msg [] =
      (Inr (),
       [payment_row (stored_record TextOnly odd_env odd)],
       [GenerateContent (text_contents TextOnly ''Spent $25.50 on lunch today''),
        ConsoleLog ''Gemini response:'' (LogText odd_json),
        Insert (payment_row (stored_record TextOnly odd_env odd)),
        ConsoleError ''Error processing message:''
          (LogError (TypeError ''Cannot convert object to primitive value'')),
        SendMessage 42 ''Sorry, there was an error processing your message.''])"
    by (simp add: on_message_processed [OF o1 o2 o3] processFinancialData_run
          send_result_def catch_events_def oq oins osnd chat othrow reply_wording(5))
  show ?thesis
    using h3 o3 by (simp add: first second row orow) (simp add: lunch_def odd_def)
qed

text \<open>
  C1, amended. When the parsed result is truthy with \<open>value\<close> not null and the insert
  succeeds, one row is inserted and the store grows by exactly that row; its \<open>value\<close>,
  \<open>description\<close>, \<open>category\<close> and \<open>data\<close> are those of the parsed record, and so is its
  \<open>payed_at\<close>, except that the revision with the response schema puts the current time
  there when the parsed \<open>payed_at\<close> is falsy (null, absent, empty) and the parsed value is
  an object or an array (a parsed primitive keeps its undefined \<open>payed_at\<close>). When the
  text of the confirmation can be built, which is always so when the rendered fields are
  primitives, one confirmation is sent; it holds the value, the description and the
  category verbatim (a string as it is, a number as the runtime prints it), and when its
  send succeeds it is the only reply. When building the text throws, the row is stored all
  the same, no confirmation is sent, and the generic error reply is sent.
\<close>

theorem payment_recorded:
  assumes "contents v env msg st = (Inr (Some c), st1, ev1)"
      and "response_text v env c st1 = (Inr txt, st2, ev2)"
      and "JSON_parse env txt = Inr financialData"
      and "truthy env financialData"
      and "get_prop financialData ''value'' \<noteq> JNull"
      and "supabase_insert env (payment_row (stored_record v env financialData)) = Inr None"
      and "on_message v env msg st = (r, st', evs)"
  shows "st' = st @ [payment_row (stored_record v env financialData)] \<and>
     inserts evs = [payment_row (stored_record v env financialData)] \<and>
     payment_row (stored_record v env financialData) =
       \<lparr>row_value = get_prop financialData ''value'',
        row_description = get_prop financialData ''description'',
        row_category = get_prop financialData ''category'',
        row_payed_at =
          (if v = WithSchema \<and> \<not> truthy env (get_prop financialData ''payed_at'') \<and>
              \<not> primitive financialData
           then JStr (now_toISOString env) else get_prop financialData ''payed_at''),
        row_data = get_prop financialData ''data''\<rparr> \<and>
     (\<forall>reply. confirmation v env (stored_record v env financialData) = Inr reply \<longrightarrow>
        evs = ev1 @ ev2 @
          [Insert (payment_row (stored_record v env financialData)),
           SendMessage (msg_chat_id msg) reply] @
          after_send env msg reply \<and>
        confirmations evs = [(msg_chat_id msg, reply)] \<and>
        replies evs = (msg_chat_id msg, reply) # replies (after_send env msg reply) \<and>
        (\<exists>amount description category rest.
           ToString env (get_prop financialData ''value'') = Inr amount \<and>
           ToString env (get_prop financialData ''description'') = Inr description \<and>
           ToString env (get_prop financialData ''category'') = Inr category \<and>
           reply = [CHR 0xE2, CHR 0x9C, CHR 0x85] @
             '' Payment recorded!\<newline>\<newline>Amount: $'' @ amount @
             ''\<newline>Description: '' @ description @
             ''\<newline>Category: '' @ category @ rest) \<and>
        (bot_sendMessage env (msg_chat_id msg) reply = None \<longrightarrow>
           r = Inr () \<and> replies evs = [(msg_chat_id msg, reply)])) \<and>
     (\<forall>e. confirmation v env (stored_record v env financialData) = Inl e \<longrightarrow>
        evs = ev1 @ ev2 @
          [Insert (payment_row (stored_record v env financialData)),
           ConsoleError ''Error processing message:'' (LogError e),
           SendMessage (msg_chat_id msg) REPLY_PROCESSING_ERROR] \<and>
        confirmations evs = [] \<and>
        replies evs = [(msg_chat_id msg, REPLY_PROCESSING_ERROR)]) \<and>
     (primitive_fields financialData \<longrightarrow>
        (\<exists>reply. confirmation v env (stored_record v env financialData) = Inr reply)) \<and>
     (\<forall>s. ToString env (JStr s) = Inr s) \<and>
     (\<forall>n. ToString env (JNum n) = Inr (num_to_string env n))"
proof -
  let ?row = "payment_row (stored_record v env financialData)"
  let ?built = "confirmation v env (stored_record v env financialData)"
  have pre: "replies ev1 = []" "replies ev2 = []" "inserts ev1 = []" "inserts ev2 = []"
    using contents_Some [OF assms(1)] response_text_Inr [OF assms(2)] by simp_all
  then have pre': "confirmations ev1 = []" "confirmations ev2 = []"
    by (simp_all add: confirmations_def)
  have run: "on_message v env msg st =
      (case ?built of
         Inl e \<Rightarrow>
           (send_result env (msg_chat_id msg) REPLY_PROCESSING_ERROR, st @ [?row],
            ev1 @ ev2 @ [Insert ?row] @ catch_events msg e)
       | Inr reply \<Rightarrow>
           ((if bot_sendMessage env (msg_chat_id msg) reply = None then Inr ()
             else send_result env (msg_chat_id msg) REPLY_PROCESSING_ERROR),
            st @ [?row],
            ev1 @ ev2 @ [Insert ?row, SendMessage (msg_chat_id msg) reply] @
              after_send env msg reply))"
    using assms(4) assms(5) assms(6)
    by (simp add: on_message_processed [OF assms(1) assms(2) assms(3)]
          processFinancialData_run send_result_def after_send_def
          split: option.splits sum.splits)
  have store: "st' = st @ [?row]" and ins: "inserts evs = [?row]"
    using run assms(7) pre
    by (auto simp: trace_simps after_send_simps catch_events_simps split: sum.splits)
  have row: "?row =
       \<lparr>row_value = get_prop financialData ''value'',
        row_description = get_prop financialData ''description'',
        row_category = get_prop financialData ''category'',
        row_payed_at =
          (if v = WithSchema \<and> \<not> truthy env (get_prop financialData ''payed_at'') \<and>
              \<not> primitive financialData
           then JStr (now_toISOString env) else get_prop financialData ''payed_at''),
        row_data = get_prop financialData ''data''\<rparr>"
    by (simp add: payment_row_def get_prop_stored_record)
  have sent: "evs = ev1 @ ev2 @ [Insert ?row, SendMessage (msg_chat_id msg) reply] @
          after_send env msg reply \<and>
        confirmations evs = [(msg_chat_id msg, reply)] \<and>
        replies evs = (msg_chat_id msg, reply) # replies (after_send env msg reply) \<and>
        (\<exists>amount description category rest.
           ToString env (get_prop financialData ''value'') = Inr amount \<and>
           ToString env (get_prop financialData ''description'') = Inr description \<and>
           ToString env (get_prop financialData ''category'') = Inr category \<and>
           reply = [CHR 0xE2, CHR 0x9C, CHR 0x85] @
             '' Payment recorded!\<newline>\<newline>Amount: $'' @ amount @
             ''\<newline>Description: '' @ description @
             ''\<newline>Category: '' @ category @ rest) \<and>
        (bot_sendMessage env (msg_chat_id msg) reply = None \<longrightarrow>
           r = Inr () \<and> replies evs = [(msg_chat_id msg, reply)])"
    if built: "?built = Inr reply" for reply
  proof -
    have evs: "evs = ev1 @ ev2 @ [Insert ?row, SendMessage (msg_chat_id msg) reply] @
        after_send env msg reply"
      and res: "r = (if bot_sendMessage env (msg_chat_id msg) reply = None then Inr ()
        else send_result env (msg_chat_id msg) REPLY_PROCESSING_ERROR)"
      using run assms(7) built by simp_all
    have shape: "\<exists>amount description category rest.
           ToString env (get_prop financialData ''value'') = Inr amount \<and>
           ToString env (get_prop financialData ''description'') = Inr description \<and>
           ToString env (get_prop financialData ''category'') = Inr category \<and>
           reply = [CHR 0xE2, CHR 0x9C, CHR 0x85] @
             '' Payment recorded!\<newline>\<newline>Amount: $'' @ amount @
             ''\<newline>Description: '' @ description @
             ''\<newline>Category: '' @ category @ rest"
      using confirmation_shape [OF built]
      by (simp add: get_prop_stored_record PAYMENT_RECORDED_def)
    have counted: "confirmations evs = [(msg_chat_id msg, reply)]"
        "replies evs = (msg_chat_id msg, reply) # replies (after_send env msg reply)"
      using pre pre' is_confirmation_simps(1) [OF built]
      by (simp_all add: evs trace_simps confirmations_simps)
    show ?thesis
      using evs res shape counted by (simp add: after_send_simps)
  qed
  have thrown: "evs = ev1 @ ev2 @
          [Insert ?row,
           ConsoleError ''Error processing message:'' (LogError e),
           SendMessage (msg_chat_id msg) REPLY_PROCESSING_ERROR] \<and>
        confirmations evs = [] \<and>
        replies evs = [(msg_chat_id msg, REPLY_PROCESSING_ERROR)]"
    if built: "?built = Inl e" for e
  proof -
    have evs: "evs = ev1 @ ev2 @ [Insert ?row] @ catch_events msg e"
      using run assms(7) built by simp
    show ?thesis
      using pre pre'
      by (simp add: evs trace_simps confirmations_simps catch_events_simps)
         (simp add: catch_events_def)
  qed
  have renders: "primitive_fields financialData \<Longrightarrow> \<exists>reply. ?built = Inr reply"
    by (rule confirmation_primitive_fields)
  have strings: "(\<forall>s. ToString env (JStr s) = Inr s) \<and>
      (\<forall>n. ToString env (JNum n) = Inr (num_to_string env n))"
    by simp
  show ?thesis
    using store ins row sent thrown renders strings by blast
qed

theorem payment_recorded_witness:
  "contents WithPhotos demo_env photo_msg [] =
     (Inr (Some (image_contents WithPhotos ''/9j/4A=='')), [],
      [GetFile ''large'',
       HttpGet ''https://api.telegram.org/file/botTOKEN/photos/large.jpg'']) \<and>
   response_text WithPhotos demo_env (image_contents WithPhotos ''/9j/4A=='') [] =
     (Inr lunch_json, [],
      [GenerateContent (image_contents WithPhotos ''/9j/4A==''),
       ConsoleLog ''Gemini response:'' (LogText lunch_json)]) \<and>
   JSON_parse demo_env lunch_json = Inr lunch \<and>
   truthy demo_env lunch \<and>
   get_prop lunch ''value'' \<noteq> JNull \<and>
   supabase_insert demo_env (payment_row (stored_record WithPhotos demo_env lunch)) =
     Inr None \<and>
   on_message WithPhotos demo_env photo_msg [] =
     (Inr (),
      [\<lparr>row_value = JNum (51 / 2), row_description = JStr ''lunch'',
         row_category = JStr ''food'', row_payed_at = JNull, row_data = JObj []\<rparr>],
      [GetFile ''large'',
       HttpGet ''https://api.telegram.org/file/botTOKEN/photos/large.jpg'',
       GenerateContent (image_contents WithPhotos ''/9j/4A==''),
       ConsoleLog ''Gemini response:'' (LogText lunch_json),
       Insert \<lparr>row_value = JNum (51 / 2), row_description = JStr ''lunch'',
         row_category = JStr ''food'', row_payed_at = JNull, row_data = JObj []\<rparr>,
       SendMessage 42 ([CHR 0xE2, CHR 0x9C, CHR 0x85] @
         '' Payment recorded!\<newline>\<newline>Amount: $25.5\<newline>Description: lunch\<newline>Category: food'')]) \<and>
   primitive_fields lunch \<and>
   confirmation WithPhotos demo_env (stored_record WithPhotos demo_env lunch) =
     Inr ([CHR 0xE2, CHR 0x9C, CHR 0x85] @
       '' Payment recorded!\<newline>\<newline>Amount: $25.5\<newline>Description: lunch\<newline>Category: food'')"
proof -
  have h1: "contents WithPhotos demo_env photo_msg [] =
      (Inr (Some (image_contents WithPhotos ''/9j/4A=='')), [],
       [GetFile ''large'',
        HttpGet ''https://api.telegram.org/file/botTOKEN/photos/large.jpg''])"
    by (simp add: contents_def contents_photo_def photo_msg_def last_photo_def
          getImageAsBase64_def fileUrl_def demo_env_def io_defs base64_char_def
          base64_alphabet_def)
  have h2: "response_text WithPhotos demo_env (image_contents WithPhotos ''/9j/4A=='') [] =
      (Inr lunch_json, [],
       [GenerateContent (image_contents WithPhotos ''/9j/4A==''),
        ConsoleLog ''Gemini response:'' (LogText lunch_json)])"
    by (simp add: response_text_def demo_env_def io_defs)
  have h3: "JSON_parse demo_env lunch_json = Inr lunch"
    by (simp add: demo_env_def)
  have h4: "truthy demo_env lunch"
    by (simp add: lunch_def)
  have h5: "get_prop lunch ''value'' \<noteq> JNull"
    by (simp add: lunch_def)
  have h6: "supabase_insert demo_env (payment_row (stored_record WithPhotos demo_env lunch)) =
      Inr None"
    by (simp add: demo_env_def)
  obtain r st' evs where h7: "on_message WithPhotos demo_env photo_msg [] = (r, st', evs)"
    by (cases "on_message WithPhotos demo_env photo_msg []") blast
  have row: "payment_row (stored_record WithPhotos demo_env lunch) =
      \<lparr>row_value = JNum (51 / 2), row_description = JStr ''lunch'',
        row_category = JStr ''food'', row_payed_at = JNull, row_data = JObj []\<rparr>"
    by (simp add: payment_row_def get_prop_stored_record) (simp add: lunch_def)
  have reply: "confirmation WithPhotos demo_env (stored_record WithPhotos demo_env lunch) =
      Inr ([CHR 0xE2, CHR 0x9C, CHR 0x85] @
        '' Payment recorded!\<newline>\<newline>Amount: $25.5\<newline>Description: lunch\<newline>Category: food'')"
    by (simp add: confirmation_def confirmation_plain_def bind_sum_def stored_record_def
          PAYMENT_RECORDED_def lunch_def demo_env_def)
  have prim: "primitive_fields lunch"
    by (simp add: primitive_fields_def lunch_def)
  have send: "bot_sendMessage demo_env k t = None" for k t
    by (simp add: demo_env_def)
  have chat: "msg_chat_id photo_msg = 42"
    by (simp add: photo_msg_def)
  show ?thesis
    using payment_recorded [OF h1 h2 h3 h4 h5 h6 h7] h1 h2 h3 h4 h5 h6 h7 send prim
    by (simp add: after_send_def row reply chat)
qed

text \<open>
  C2. When the parsed result has \<open>value\<close> null, nothing is inserted, the store is left as
  it was, and the handler sends one reply, whose text says that it "couldn't find any
  payment information" and asks for an amount and a description. The path is not an
  error: when that send succeeds the handler resolves and the reply is its only reply and
  last call. (When the send itself fails, the \<open>catch\<close> block adds the generic reply.)
\<close>

theorem no_payment_found:
  assumes "contents v env msg st = (Inr (Some c), st1, ev1)"
      and "response_text v env c st1 = (Inr txt, st2, ev2)"
      and "JSON_parse env txt = Inr financialData"
      and "get_prop financialData ''value'' = JNull"
      and "on_message v env msg st = (r, st', evs)"
  shows "st' = st \<and> inserts evs = [] \<and>
     replies evs =
       (msg_chat_id msg,
        ''I couldn't find any payment information in your message. Please make sure to include an amount and description.'') #
       replies (after_send env msg REPLY_NO_PAYMENT) \<and>
     evs = ev1 @ ev2 @
       SendMessage (msg_chat_id msg)
         ''I couldn't find any payment information in your message. Please make sure to include an amount and description.'' #
       after_send env msg REPLY_NO_PAYMENT \<and>
     (\<exists>before after.
        ''I couldn't find any payment information in your message. Please make sure to include an amount and description.'' =
        before @ ''couldn't find any payment information'' @ after) \<and>
     (bot_sendMessage env (msg_chat_id msg) REPLY_NO_PAYMENT = None \<longrightarrow>
        r = Inr () \<and>
        replies evs =
          [(msg_chat_id msg,
            ''I couldn't find any payment information in your message. Please make sure to include an amount and description.'')])"
proof -
  have pre: "replies ev1 = []" "replies ev2 = []" "inserts ev1 = []" "inserts ev2 = []"
    using contents_Some [OF assms(1)] response_text_Inr [OF assms(2)] by simp_all
  have "on_message v env msg st =
      ((if bot_sendMessage env (msg_chat_id msg) REPLY_NO_PAYMENT = None then Inr ()
        else send_result env (msg_chat_id msg) REPLY_PROCESSING_ERROR),
       st, ev1 @ ev2 @ SendMessage (msg_chat_id msg) REPLY_NO_PAYMENT #
         after_send env msg REPLY_NO_PAYMENT)"
    using assms(3) assms(4)
    by (simp add: on_message_answered [OF assms(1) assms(2)] try_catch_run
          parse_and_process_def processFinancialData_run send_result_def after_send_def
          split: option.splits)
  with assms(5) pre reply_contains(1) show ?thesis
    by (auto simp: trace_simps after_send_simps reply_wording(4) [symmetric])
qed

theorem no_payment_found_witness:
  "contents WithSchema (answering null_json) text_msg [] =
     (Inr (Some (text_contents WithSchema ''Spent $25.50 on lunch today'')), [], []) \<and>
   response_text WithSchema (answering null_json)
       (text_contents WithSchema ''Spent $25.50 on lunch today'') [] =
     (Inr null_json, [],
      [GenerateContentSchema (text_contents WithSchema ''Spent $25.50 on lunch today''),
       ConsoleLog ''Gemini response:'' (LogText null_json)]) \<and>
   JSON_parse (answering null_json) null_json = Inr nothing_found \<and>
   get_prop nothing_found ''value'' = JNull \<and>
   on_message WithSchema (answering null_json) text_msg [] =
     (Inr (), [],
      [GenerateContentSchema (text_contents WithSchema ''Spent $25.50 on lunch today''),
       ConsoleLog ''Gemini response:'' (LogText null_json),
       SendMessage 42
         ''I couldn't find any payment information in your message. Please make sure to include an amount and description.'']) \<and>
   inserts
     [GenerateContentSchema (text_contents WithSchema ''Spent $25.50 on lunch today''),
      ConsoleLog ''Gemini response:'' (LogText null_json),
      SendMessage 42
         ''I couldn't find any payment information in your message. Please make sure to include an amount and description.'' :: rat event] = [] \<and>
   replies
     [GenerateContentSchema (text_contents WithSchema ''Spent $25.50 on lunch today''),
      ConsoleLog ''Gemini response:'' (LogText null_json),
      SendMessage 42
         ''I couldn't find any payment information in your message. Please make sure to include an amount and description.'' :: rat event] = [(42,
       ''I couldn't find any payment information in your message. Please make sure to include an amount and description.'')]"
proof -
  have h1: "contents WithSchema (answering null_json) text_msg [] =
      (Inr (Some (text_contents WithSchema ''Spent $25.50 on lunch today'')), [], [])"
    by (simp add: contents_def contents_photo_def text_msg_def io_defs)
  have h2: "response_text WithSchema (answering null_json)
        (text_contents WithSchema ''Spent $25.50 on lunch today'') [] =
      (Inr null_json, [],
       [GenerateContentSchema (text_contents WithSchema ''Spent $25.50 on lunch today''),
        ConsoleLog ''Gemini response:'' (LogText null_json)])"
    by (simp add: response_text_def answering_def demo_env_def io_defs)
  have h3: "JSON_parse (answering null_json) null_json = Inr nothing_found"
    by (simp add: answering_def demo_env_def null_json_def lunch_json_def)
  have h4: "get_prop nothing_found ''value'' = JNull"
    by (simp add: nothing_found_def)
  have h5: "on_message WithSchema (answering null_json) text_msg [] =
      (Inr (), [],
       [GenerateContentSchema (text_contents WithSchema ''Spent $25.50 on lunch today''),
        ConsoleLog ''Gemini response:'' (LogText null_json),
        SendMessage 42 REPLY_NO_PAYMENT])"
    using h3 h4
    by (simp add: on_message_answered [OF h1 h2] try_catch_run parse_and_process_def
          processFinancialData_run send_result_def)
       (simp add: answering_def demo_env_def text_msg_def)
  show ?thesis
    using no_payment_found [OF h1 h2 h3 h4 h5] h1 h2 h3 h4 h5
    by (simp add: trace_simps reply_wording(4) [symmetric])
qed

text \<open>
  C3. When the text the model returned does not parse as JSON, the handler inserts
  nothing, leaves the store as it was, logs the failure and the raw text, and sends one
  reply, whose text says that it "couldn't understand" the financial information; that
  text is not the text of the generic error reply, and when its send succeeds it is the
  only reply. The model was called once and is not called again.
\<close>

theorem response_not_json:
  assumes "contents v env msg st = (Inr (Some c), st1, ev1)"
      and "response_text v env c st1 = (Inr txt, st2, ev2)"
      and "JSON_parse env txt = Inl e"
      and "on_message v env msg st = (r, st', evs)"
  shows "st' = st \<and> inserts evs = [] \<and> completions evs = [c] \<and>
     replies evs =
       (msg_chat_id msg,
        ''Sorry, I couldn't understand the financial information in your message.'') #
       replies (after_send env msg REPLY_NOT_UNDERSTOOD) \<and>
     evs = ev1 @ ev2 @
       [ConsoleError ''Failed to parse Gemini response:'' (LogError e),
        ConsoleError ''Raw response:'' (LogText txt),
        SendMessage (msg_chat_id msg)
          ''Sorry, I couldn't understand the financial information in your message.''] @
       after_send env msg REPLY_NOT_UNDERSTOOD \<and>
     (\<exists>before after.
        ''Sorry, I couldn't understand the financial information in your message.'' =
        before @ ''couldn't understand'' @ after) \<and>
     ''Sorry, I couldn't understand the financial information in your message.'' \<noteq>
       ''Sorry, there was an error processing your message.'' \<and>
     REPLY_PROCESSING_ERROR = ''Sorry, there was an error processing your message.'' \<and>
     (bot_sendMessage env (msg_chat_id msg) REPLY_NOT_UNDERSTOOD = None \<longrightarrow>
        r = Inr () \<and>
        replies evs =
          [(msg_chat_id msg,
            ''Sorry, I couldn't understand the financial information in your message.'')])"
proof -
  have pre: "replies ev1 = []" "replies ev2 = []" "inserts ev1 = []" "inserts ev2 = []"
      "completions ev1 = []" "completions ev2 = [c]"
    using contents_Some [OF assms(1)] response_text_Inr [OF assms(2)] by simp_all
  have "on_message v env msg st =
      ((if bot_sendMessage env (msg_chat_id msg) REPLY_NOT_UNDERSTOOD = None then Inr ()
        else send_result env (msg_chat_id msg) REPLY_PROCESSING_ERROR),
       st, ev1 @ ev2 @
         [ConsoleError ''Failed to parse Gemini response:'' (LogError e),
          ConsoleError ''Raw response:'' (LogText txt),
          SendMessage (msg_chat_id msg) REPLY_NOT_UNDERSTOOD] @
         after_send env msg REPLY_NOT_UNDERSTOOD)"
    using assms(3)
    by (simp add: on_message_answered [OF assms(1) assms(2)] try_catch_run
          parse_failure_run send_result_def after_send_def split: option.splits)
  with assms(4) pre reply_contains(2) reply_texts_distinct(2) show ?thesis
    by (auto simp: trace_simps after_send_simps reply_wording(2) [symmetric]
          reply_wording(5) [symmetric])
qed

theorem response_not_json_witness:
  "contents TextOnly (answering ''Sure! Here it is'') text_msg [] =
     (Inr (Some (text_contents TextOnly ''Spent $25.50 on lunch today'')), [], []) \<and>
   response_text TextOnly (answering ''Sure! Here it is'')
       (text_contents TextOnly ''Spent $25.50 on lunch today'') [] =
     (Inr ''Sure! Here it is'', [],
      [GenerateContent (text_contents TextOnly ''Spent $25.50 on lunch today''),
       ConsoleLog ''Gemini response:'' (LogText ''Sure! Here it is'')]) \<and>
   JSON_parse (answering ''Sure! Here it is'') ''Sure! Here it is'' =
     Inl (SyntaxError ''Unexpected token'') \<and>
   on_message TextOnly (answering ''Sure! Here it is'') text_msg [] =
     (Inr (), [],
      [GenerateContent (text_contents TextOnly ''Spent $25.50 on lunch today''),
       ConsoleLog ''Gemini response:'' (LogText ''Sure! Here it is''),
       ConsoleError ''Failed to parse Gemini response:''
         (LogError (SyntaxError ''Unexpected token'')),
       ConsoleError ''Raw response:'' (LogText ''Sure! Here it is''),
       SendMessage 42
         ''Sorry, I couldn't understand the financial information in your message.''])"
proof -
  have h1: "contents TextOnly (answering ''Sure! Here it is'') text_msg [] =
      (Inr (Some (text_contents TextOnly ''Spent $25.50 on lunch today'')), [], [])"
    by (simp add: contents_def contents_index_def text_msg_def io_defs)
  have h2: "response_text TextOnly (answering ''Sure! Here it is'')
        (text_contents TextOnly ''Spent $25.50 on lunch today'') [] =
      (Inr ''Sure! Here it is'', [],
       [GenerateContent (text_contents TextOnly ''Spent $25.50 on lunch today''),
        ConsoleLog ''Gemini response:'' (LogText ''Sure! Here it is'')])"
    by (simp add: response_text_def answering_def demo_env_def io_defs)
  have h3: "JSON_parse (answering ''Sure! Here it is'') ''Sure! Here it is'' =
      Inl (SyntaxError ''Unexpected token'')"
    by (simp add: answering_def demo_env_def null_json_def lunch_json_def)
  obtain r st' evs where
    h4: "on_message TextOnly (answering ''Sure! Here it is'') text_msg [] = (r, st', evs)"
    by (cases "on_message TextOnly (answering ''Sure! Here it is'') text_msg []") blast
  have send: "bot_sendMessage (answering ''Sure! Here it is'') (msg_chat_id text_msg)
      REPLY_NOT_UNDERSTOOD = None" "msg_chat_id text_msg = 42"
    by (simp_all add: answering_def demo_env_def text_msg_def)
  show ?thesis
    using response_not_json [OF h1 h2 h3 h4] h1 h2 h3 h4 send
    by (simp add: after_send_def reply_wording(2) [symmetric])
qed

text \<open>
  C4. In the revision with the response schema, when the parsed result is truthy with
  \<open>value\<close> not null, the row handed to the store never has \<open>payed_at\<close> null: a parsed
  \<open>payed_at\<close> of null is replaced by the current time before the insert. The insert is
  the first call after the answer of the model is logged, and when it succeeds the store
  grows by that row.
\<close>

theorem payed_at_defaulted:
  assumes "contents WithSchema env msg st = (Inr (Some c), st1, ev1)"
      and "response_text WithSchema env c st1 = (Inr txt, st2, ev2)"
      and "JSON_parse env txt = Inr financialData"
      and "truthy env financialData"
      and "get_prop financialData ''value'' \<noteq> JNull"
      and "on_message WithSchema env msg st = (r, st', evs)"
  shows "inserts evs = [payment_row (default_payed_at env financialData)] \<and>
     take (Suc (length (ev1 @ ev2))) evs =
       ev1 @ ev2 @ [Insert (payment_row (default_payed_at env financialData))] \<and>
     row_payed_at (payment_row (default_payed_at env financialData)) \<noteq> JNull \<and>
     (get_prop financialData ''payed_at'' = JNull \<longrightarrow>
        row_payed_at (payment_row (default_payed_at env financialData)) =
          JStr (now_toISOString env)) \<and>
     (supabase_insert env (payment_row (default_payed_at env financialData)) = Inr None \<longrightarrow>
        st' = st @ [payment_row (default_payed_at env financialData)])"
proof -
  let ?row = "payment_row (default_payed_at env financialData)"
  have pre: "inserts ev1 = []" "inserts ev2 = []"
    using contents_Some [OF assms(1)] response_text_Inr [OF assms(2)] by simp_all
  have rec: "stored_record WithSchema env financialData = default_payed_at env financialData"
    by (simp add: stored_record_def)
  have "\<exists>rest. evs = ev1 @ ev2 @ Insert ?row # rest \<and> inserts rest = [] \<and>
      (supabase_insert env ?row = Inr None \<longrightarrow> st' = st @ [?row])"
    using assms(4) assms(5) assms(6)
    by (auto simp: on_message_processed [OF assms(1) assms(2) assms(3)]
          processFinancialData_run rec send_result_def catch_events_def trace_simps
          split: option.splits sum.splits)
  then obtain rest where run: "evs = ev1 @ ev2 @ Insert ?row # rest" "inserts rest = []"
      "supabase_insert env ?row = Inr None \<longrightarrow> st' = st @ [?row]"
    by blast
  have null: "row_payed_at ?row \<noteq> JNull"
    using get_prop_primitive [of financialData "''payed_at''"]
    by (cases "get_prop financialData ''payed_at''")
       (auto simp: payment_row_def get_prop_default_payed_at)
  have now: "get_prop financialData ''payed_at'' = JNull \<Longrightarrow>
      row_payed_at ?row = JStr (now_toISOString env)"
    by (cases financialData) (simp_all add: payment_row_def get_prop_default_payed_at)
  show ?thesis
    using run pre null now by (simp add: trace_simps)
qed

theorem payed_at_defaulted_witness:
  "contents WithSchema demo_env text_msg [] =
     (Inr (Some (text_contents WithSchema ''Spent $25.50 on lunch today'')), [], []) \<and>
   response_text WithSchema demo_env
       (text_contents WithSchema ''Spent $25.50 on lunch today'') [] =
     (Inr lunch_json, [],
      [GenerateContentSchema (text_contents WithSchema ''Spent $25.50 on lunch today''),
       ConsoleLog ''Gemini response:'' (LogText lunch_json)]) \<and>
   JSON_parse demo_env lunch_json = Inr lunch \<and>
   truthy demo_env lunch \<and>
   get_prop lunch ''value'' \<noteq> JNull \<and>
   get_prop lunch ''payed_at'' = JNull \<and>
   supabase_insert demo_env (payment_row (default_payed_at demo_env lunch)) = Inr None \<and>
   inserts (snd (snd (on_message WithSchema demo_env text_msg []))) =
     [\<lparr>row_value = JNum (51 / 2), row_description = JStr ''lunch'',
        row_category = JStr ''food'', row_payed_at = JStr ''2025-03-01T12:00:00.000Z'',
        row_data = JObj []\<rparr>] \<and>
   fst (snd (on_message WithSchema demo_env text_msg [])) =
     [\<lparr>row_value = JNum (51 / 2), row_description = JStr ''lunch'',
        row_category = JStr ''food'', row_payed_at = JStr ''2025-03-01T12:00:00.000Z'',
        row_data = JObj []\<rparr>]"
proof -
  have h1: "contents WithSchema demo_env text_msg [] =
      (Inr (Some (text_contents WithSchema ''Spent $25.50 on lunch today'')), [], [])"
    by (simp add: contents_def contents_photo_def text_msg_def io_defs)
  have h2: "response_text WithSchema demo_env
        (text_contents WithSchema ''Spent $25.50 on lunch today'') [] =
      (Inr lunch_json, [],
       [GenerateContentSchema (text_contents WithSchema ''Spent $25.50 on lunch today''),
        ConsoleLog ''Gemini response:'' (LogText lunch_json)])"
    by (simp add: response_text_def demo_env_def io_defs)
  have h3: "JSON_parse demo_env lunch_json = Inr lunch"
    by (simp add: demo_env_def)
  have h4: "truthy demo_env lunch"
    by (simp add: lunch_def)
  have h5: "get_prop lunch ''value'' \<noteq> JNull"
    by (simp add: lunch_def)
  have h6: "get_prop lunch ''payed_at'' = JNull"
    by (simp add: lunch_def)
  have h7: "supabase_insert demo_env (payment_row (default_payed_at demo_env lunch)) = Inr None"
    by (simp add: demo_env_def)
  obtain r st' evs where h8: "on_message WithSchema demo_env text_msg [] = (r, st', evs)"
    by (cases "on_message WithSchema demo_env text_msg []") blast
  have row: "payment_row (default_payed_at demo_env lunch) =
      \<lparr>row_value = JNum (51 / 2), row_description = JStr ''lunch'',
        row_category = JStr ''food'', row_payed_at = JStr ''2025-03-01T12:00:00.000Z'',
        row_data = JObj []\<rparr>"
    by (simp add: payment_row_def get_prop_default_payed_at) (simp add: lunch_def demo_env_def)
  show ?thesis
    using payed_at_defaulted [OF h1 h2 h3 h4 h5 h8] h1 h2 h3 h4 h5 h6 h7 h8
    by (simp add: row)
qed

text \<open>
  C5. When the store rejects the insert (its response carries an error), the store is left
  as it was, the insert was attempted once and is not repeated, the handler sends one
  reply, whose text says that there was an "error saving" the payment information, and no
  confirmation is sent; nothing is kept for a later attempt.
\<close>

theorem insert_rejected:
  assumes "contents v env msg st = (Inr (Some c), st1, ev1)"
      and "response_text v env c st1 = (Inr txt, st2, ev2)"
      and "JSON_parse env txt = Inr financialData"
      and "truthy env financialData"
      and "get_prop financialData ''value'' \<noteq> JNull"
      and "supabase_insert env (payment_row (stored_record v env financialData)) =
             Inr (Some err)"
      and "on_message v env msg st = (r, st', evs)"
  shows "st' = st \<and>
     inserts evs = [payment_row (stored_record v env financialData)] \<and>
     replies evs =
       (msg_chat_id msg, ''Sorry, there was an error saving your payment information.'') #
       replies (after_send env msg REPLY_SAVE_ERROR) \<and>
     confirmations evs = [] \<and>
     evs = ev1 @ ev2 @
       [Insert (payment_row (stored_record v env financialData)),
        ConsoleError ''Supabase error:'' (LogError err),
        SendMessage (msg_chat_id msg)
          ''Sorry, there was an error saving your payment information.''] @
       after_send env msg REPLY_SAVE_ERROR \<and>
     (\<exists>before after.
        ''Sorry, there was an error saving your payment information.'' =
        before @ ''error saving'' @ after) \<and>
     (bot_sendMessage env (msg_chat_id msg) REPLY_SAVE_ERROR = None \<longrightarrow>
        r = Inr () \<and>
        replies evs =
          [(msg_chat_id msg, ''Sorry, there was an error saving your payment information.'')])"
proof -
  have pre: "replies ev1 = []" "replies ev2 = []" "inserts ev1 = []" "inserts ev2 = []"
    using contents_Some [OF assms(1)] response_text_Inr [OF assms(2)] by simp_all
  then have pre': "confirmations ev1 = []" "confirmations ev2 = []"
    by (simp_all add: confirmations_def)
  have "on_message v env msg st =
      ((if bot_sendMessage env (msg_chat_id msg) REPLY_SAVE_ERROR = None then Inr ()
        else send_result env (msg_chat_id msg) REPLY_PROCESSING_ERROR),
       st, ev1 @ ev2 @
         [Insert (payment_row (stored_record v env financialData)),
          ConsoleError ''Supabase error:'' (LogError err),
          SendMessage (msg_chat_id msg) REPLY_SAVE_ERROR] @
         after_send env msg REPLY_SAVE_ERROR)"
    using assms(4) assms(5) assms(6)
    by (simp add: on_message_processed [OF assms(1) assms(2) assms(3)]
          processFinancialData_run send_result_def after_send_def split: option.splits)
  with assms(7) pre pre' reply_contains(3) show ?thesis
    by (auto simp: trace_simps after_send_simps confirmations_simps is_confirmation_simps
          reply_wording(3) [symmetric])
qed

theorem insert_rejected_witness:
  "contents WithPhotos save_fail_env text_msg [] =
     (Inr (Some (text_contents WithPhotos ''Spent $25.50 on lunch today'')), [], []) \<and>
   response_text WithPhotos save_fail_env
       (text_contents WithPhotos ''Spent $25.50 on lunch today'') [] =
     (Inr lunch_json, [],
      [GenerateContent (text_contents WithPhotos ''Spent $25.50 on lunch today''),
       ConsoleLog ''Gemini response:'' (LogText lunch_json)]) \<and>
   JSON_parse save_fail_env lunch_json = Inr lunch \<and>
   truthy save_fail_env lunch \<and>
   get_prop lunch ''value'' \<noteq> JNull \<and>
   supabase_insert save_fail_env (payment_row (stored_record WithPhotos save_fail_env lunch)) =
     Inr (Some (Rejected ''permission denied'')) \<and>
   on_message WithPhotos save_fail_env text_msg [] =
     (Inr (), [],
      [GenerateContent (text_contents WithPhotos ''Spent $25.50 on lunch today''),
       ConsoleLog ''Gemini response:'' (LogText lunch_json),
       Insert \<lparr>row_value = JNum (51 / 2), row_description = JStr ''lunch'',
         row_category = JStr ''food'', row_payed_at = JNull, row_data = JObj []\<rparr>,
       ConsoleError ''Supabase error:'' (LogError (Rejected ''permission denied'')),
       SendMessage 42
         ''Sorry, there was an error saving your payment information.''])"
proof -
  have h1: "contents WithPhotos save_fail_env text_msg [] =
      (Inr (Some (text_contents WithPhotos ''Spent $25.50 on lunch today'')), [], [])"
    by (simp add: contents_def contents_photo_def text_msg_def io_defs)
  have h2: "response_text WithPhotos save_fail_env
        (text_contents WithPhotos ''Spent $25.50 on lunch today'') [] =
      (Inr lunch_json, [],
       [GenerateContent (text_contents WithPhotos ''Spent $25.50 on lunch today''),
        ConsoleLog ''Gemini response:'' (LogText lunch_json)])"
    by (simp add: response_text_def save_fail_env_def demo_env_def io_defs)
  have h3: "JSON_parse save_fail_env lunch_json = Inr lunch"
    by (simp add: save_fail_env_def demo_env_def)
  have h4: "truthy save_fail_env lunch"
    by (simp add: lunch_def)
  have h5: "get_prop lunch ''value'' \<noteq> JNull"
    by (simp add: lunch_def)
  have h6: "supabase_insert save_fail_env
        (payment_row (stored_record WithPhotos save_fail_env lunch)) =
      Inr (Some (Rejected ''permission denied''))"
    by (simp add: save_fail_env_def demo_env_def)
  obtain r st' evs where
    h7: "on_message WithPhotos save_fail_env text_msg [] = (r, st', evs)"
    by (cases "on_message WithPhotos save_fail_env text_msg []") blast
  have send: "bot_sendMessage save_fail_env (msg_chat_id text_msg) REPLY_SAVE_ERROR = None"
      "msg_chat_id text_msg = 42"
    by (simp_all add: save_fail_env_def demo_env_def text_msg_def)
  have row: "payment_row (stored_record WithPhotos save_fail_env lunch) =
      \<lparr>row_value = JNum (51 / 2), row_description = JStr ''lunch'',
        row_category = JStr ''food'', row_payed_at = JNull, row_data = JObj []\<rparr>"
    by (simp add: payment_row_def stored_record_def lunch_def)
  show ?thesis
    using insert_rejected [OF h1 h2 h3 h4 h5 h6 h7] h1 h2 h3 h4 h5 h6 h7 send row
    by (simp add: after_send_def reply_wording(3) [symmetric])
qed

text \<open>
  C6, as stated, fails on \<open>src/src/index.js\<close>: that revision has no test of the content.
  A message with neither text nor photo is sent to the model with the text
  \<open>undefined\<close>, and whatever the model answers is processed; here a row is stored and a
  confirmation sent, and no reply asks to send the message again.
\<close>

theorem index_js_forwards_empty_message:
  "msg_text sticker_msg = None \<and> msg_photo sticker_msg = None \<and>
   on_message TextOnly demo_env sticker_msg [] =
     (Inr (),
      [\<lparr>row_value = JNum (51 / 2), row_description = JStr ''lunch'',
         row_category = JStr ''food'', row_payed_at = JNull, row_data = JObj []\<rparr>],
      [GenerateContent (TextContent (EXTRACTION_PROMPT_index @
         ''\<newline>\<newline>Message to analyze: undefined'')),
       ConsoleLog ''Gemini response:'' (LogText lunch_json),
       Insert \<lparr>row_value = JNum (51 / 2), row_description = JStr ''lunch'',
         row_category = JStr ''food'', row_payed_at = JNull, row_data = JObj []\<rparr>,
       SendMessage 42 (PAYMENT_RECORDED @
         ''Amount: $25.5\<newline>Description: lunch\<newline>Category: food'')])"
proof -
  have h1: "contents TextOnly demo_env sticker_msg [] =
      (Inr (Some (text_contents TextOnly ''undefined'')), [], [])"
    by (simp add: contents_def contents_index_def sticker_msg_def io_defs)
  have h2: "response_text TextOnly demo_env (text_contents TextOnly ''undefined'') [] =
      (Inr lunch_json, [],
       [GenerateContent (text_contents TextOnly ''undefined''),
        ConsoleLog ''Gemini response:'' (LogText lunch_json)])"
    by (simp add: response_text_def demo_env_def io_defs)
  have h3: "JSON_parse demo_env lunch_json = Inr lunch"
    by (simp add: demo_env_def)
  have q: "truthy demo_env lunch" "get_prop lunch ''value'' \<noteq> JNull"
    by (simp_all add: lunch_def)
  have ins: "supabase_insert demo_env x = Inr None" for x
    by (simp add: demo_env_def)
  have snd: "bot_sendMessage demo_env k reply = None" for k reply
    by (simp add: demo_env_def)
  have chat: "msg_chat_id sticker_msg = 42" "msg_text sticker_msg = None"
      "msg_photo sticker_msg = None"
    by (simp_all add: sticker_msg_def)
  have row: "payment_row (stored_record TextOnly demo_env lunch) =
      \<lparr>row_value = JNum (51 / 2), row_description = JStr ''lunch'',
        row_category = JStr ''food'', row_payed_at = JNull, row_data = JObj []\<rparr>"
    by (simp add: payment_row_def get_prop_stored_record) (simp add: lunch_def)
  have reply: "confirmation TextOnly demo_env (stored_record TextOnly demo_env lunch) =
      Inr (PAYMENT_RECORDED @
        ''Amount: $25.5\<newline>Description: lunch\<newline>Category: food'')"
    by (simp add: confirmation_def confirmation_plain_def responseMessage_def
          optional_line_def bind_sum_def Date_toLocaleDateString_def ToPrimitive_def
          stored_record_def default_payed_at_def lunch_def demo_env_def)
  have "on_message TextOnly demo_env sticker_msg [] =
      (Inr (),
       [payment_row (stored_record TextOnly demo_env lunch)],
       [GenerateContent (text_contents TextOnly ''undefined''),
        ConsoleLog ''Gemini response:'' (LogText lunch_json),
        Insert (payment_row (stored_record TextOnly demo_env lunch)),
        SendMessage 42 (PAYMENT_RECORDED @
          ''Amount: $25.5\<newline>Description: lunch\<newline>Category: food'')])"
    by (simp add: on_message_processed [OF h1 h2 h3] processFinancialData_run
          send_result_def q ins snd chat reply)
  then show ?thesis
    by (simp add: row chat text_contents_def EXTRACTION_PROMPT_def)
qed

text \<open>
  C6, amended. In the two revisions that handle photos, a message with no photo and no
  text (or an empty text) gets the reply that asks for a text or an image, and the handler
  returns: the model is not called and nothing is inserted. When the send of that reply
  succeeds it is the only call the handler makes, and the handler resolves. The reply
  reads "Please send a text message or an image containing payment information."
\<close>

theorem neither_text_nor_photo:
  assumes "v \<noteq> TextOnly"
      and "msg_photo msg = None"
      and "msg_text msg = None \<or> msg_text msg = Some []"
      and "on_message v env msg st = (r, st', evs)"
  shows "st' = st \<and> completions evs = [] \<and> inserts evs = [] \<and>
     evs = SendMessage (msg_chat_id msg) REPLY_RESEND # after_send env msg REPLY_RESEND \<and>
     replies evs = (msg_chat_id msg, REPLY_RESEND) #
       replies (after_send env msg REPLY_RESEND) \<and>
     (bot_sendMessage env (msg_chat_id msg) REPLY_RESEND = None \<longrightarrow>
        r = Inr () \<and> evs = [SendMessage (msg_chat_id msg) REPLY_RESEND]) \<and>
     replies evs =
       (msg_chat_id msg,
        ''Please send a text message or an image containing payment information.'') #
       replies (after_send env msg REPLY_RESEND)"
proof -
  have "try_block v env msg st =
      (case send_result env (msg_chat_id msg) REPLY_RESEND of
         Inl e \<Rightarrow> Inl e | Inr u \<Rightarrow> Inr (),
       st, [SendMessage (msg_chat_id msg) REPLY_RESEND])"
    using assms(1) assms(2) assms(3)
    by (cases v)
       (auto simp: try_block_def contents_def contents_photo_def ask_to_resend_def
          bind_io_def return_io_def sendMessage_def split: sum.splits)
  then have "on_message v env msg st =
      ((if bot_sendMessage env (msg_chat_id msg) REPLY_RESEND = None then Inr ()
        else send_result env (msg_chat_id msg) REPLY_PROCESSING_ERROR),
       st, SendMessage (msg_chat_id msg) REPLY_RESEND # after_send env msg REPLY_RESEND)"
    by (simp add: on_message_def try_catch_run send_result_def after_send_def
          split: option.splits)
  with assms(4) show ?thesis
    by (auto simp: trace_simps after_send_simps after_send_None reply_wording(1) [symmetric])
qed

theorem neither_text_nor_photo_witness:
  "WithSchema \<noteq> TextOnly \<and> msg_photo sticker_msg = None \<and>
   (msg_text sticker_msg = None \<or> msg_text sticker_msg = Some []) \<and>
   on_message WithSchema demo_env sticker_msg [] =
     (Inr (), [], [SendMessage 42 REPLY_RESEND])"
proof -
  have h1: "WithSchema \<noteq> TextOnly"
    by simp
  have h2: "msg_photo sticker_msg = None"
    by (simp add: sticker_msg_def)
  have h3: "msg_text sticker_msg = None \<or> msg_text sticker_msg = Some []"
    by (simp add: sticker_msg_def)
  obtain r st' evs where h4: "on_message WithSchema demo_env sticker_msg [] = (r, st', evs)"
    by (cases "on_message WithSchema demo_env sticker_msg []") blast
  have send: "bot_sendMessage demo_env (msg_chat_id sticker_msg) REPLY_RESEND = None"
      "msg_chat_id sticker_msg = 42"
    by (simp_all add: demo_env_def sticker_msg_def)
  show ?thesis
    using neither_text_nor_photo [OF h1 h2 h3 h4] h2 h3 h4 send
    by (simp add: after_send_None)
qed

text \<open>
  C7, as stated, fails when the download answers an empty body: nothing in the handler
  looks at the bytes, the payload is the empty string, and it is sent to the model all the
  same (whose answer is then processed as usual).
\<close>

theorem empty_download_is_sent:
  "msg_photo photo_msg = Some [\<lparr>file_id = ''small''\<rparr>, \<lparr>file_id = ''large''\<rparr>] \<and>
   bot_getFile empty_body_env ''large'' = Inr \<lparr>file_path = Some ''photos/large.jpg''\<rparr> \<and>
   axios_get empty_body_env ''https://api.telegram.org/file/botTOKEN/photos/large.jpg'' =
     Inr [] \<and>
   on_message WithSchema empty_body_env photo_msg [] =
     (Inr (),
      [\<lparr>row_value = JNum (51 / 2), row_description = JStr ''lunch'',
         row_category = JStr ''food'', row_payed_at = JStr ''2025-03-01T12:00:00.000Z'',
         row_data = JObj []\<rparr>],
      [GetFile ''large'',
       HttpGet ''https://api.telegram.org/file/botTOKEN/photos/large.jpg'',
       GenerateContentSchema (ImageContent EXTRACTION_PROMPT_schema
         \<lparr>inlineData_data = [], inlineData_mimeType = ''image/jpeg''\<rparr>),
       ConsoleLog ''Gemini response:'' (LogText lunch_json),
       Insert \<lparr>row_value = JNum (51 / 2), row_description = JStr ''lunch'',
         row_category = JStr ''food'', row_payed_at = JStr ''2025-03-01T12:00:00.000Z'',
         row_data = JObj []\<rparr>,
       SendMessage 42 (PAYMENT_RECORDED @
         ''Amount: $25.5\<newline>Description: lunch\<newline>Category: food\<newline>Date: 3/1/2025'')])"
proof -
  have h1: "contents WithSchema empty_body_env photo_msg [] =
      (Inr (Some (image_contents WithSchema [])), [],
       [GetFile ''large'',
        HttpGet ''https://api.telegram.org/file/botTOKEN/photos/large.jpg''])"
    by (simp add: contents_def contents_photo_def photo_msg_def last_photo_def
          getImageAsBase64_def fileUrl_def empty_body_env_def demo_env_def io_defs)
  have h2: "response_text WithSchema empty_body_env (image_contents WithSchema []) [] =
      (Inr lunch_json, [],
       [GenerateContentSchema (image_contents WithSchema []),
        ConsoleLog ''Gemini response:'' (LogText lunch_json)])"
    by (simp add: response_text_def empty_body_env_def demo_env_def io_defs)
  have h3: "JSON_parse empty_body_env lunch_json = Inr lunch"
    by (simp add: empty_body_env_def demo_env_def)
  have q: "truthy empty_body_env lunch" "get_prop lunch ''value'' \<noteq> JNull"
    by (simp_all add: lunch_def)
  have ins: "supabase_insert empty_body_env x = Inr None" for x
    by (simp add: empty_body_env_def demo_env_def)
  have snd: "bot_sendMessage empty_body_env k reply = None" for k reply
    by (simp add: empty_body_env_def demo_env_def)
  have facts: "msg_chat_id photo_msg = 42"
      "msg_photo photo_msg = Some [\<lparr>file_id = ''small''\<rparr>, \<lparr>file_id = ''large''\<rparr>]"
      "bot_getFile empty_body_env ''large'' = Inr \<lparr>file_path = Some ''photos/large.jpg''\<rparr>"
      "axios_get empty_body_env ''https://api.telegram.org/file/botTOKEN/photos/large.jpg'' =
         Inr []"
    by (simp_all add: photo_msg_def empty_body_env_def demo_env_def)
  have row: "payment_row (stored_record WithSchema empty_body_env lunch) =
      \<lparr>row_value = JNum (51 / 2), row_description = JStr ''lunch'',
        row_category = JStr ''food'', row_payed_at = JStr ''2025-03-01T12:00:00.000Z'',
        row_data = JObj []\<rparr>"
    by (simp add: payment_row_def get_prop_stored_record)
       (simp add: lunch_def empty_body_env_def demo_env_def)
  have reply: "confirmation WithSchema empty_body_env (stored_record WithSchema empty_body_env lunch) =
      Inr (PAYMENT_RECORDED @
        ''Amount: $25.5\<newline>Description: lunch\<newline>Category: food\<newline>Date: 3/1/2025'')"
    by (simp add: confirmation_def confirmation_plain_def responseMessage_def
          optional_line_def bind_sum_def Date_toLocaleDateString_def ToPrimitive_def
          stored_record_def default_payed_at_def lunch_def empty_body_env_def demo_env_def)
  have "on_message WithSchema empty_body_env photo_msg [] =
      (Inr (),
       [payment_row (stored_record WithSchema empty_body_env lunch)],
       [GetFile ''large'',
        HttpGet ''https://api.telegram.org/file/botTOKEN/photos/large.jpg'',
        GenerateContentSchema (image_contents WithSchema []),
        ConsoleLog ''Gemini response:'' (LogText lunch_json),
        Insert (payment_row (stored_record WithSchema empty_body_env lunch)),
        SendMessage 42 (PAYMENT_RECORDED @
          ''Amount: $25.5\<newline>Description: lunch\<newline>Category: food\<newline>Date: 3/1/2025'')])"
    by (simp add: on_message_processed [OF h1 h2 h3] processFinancialData_run
          send_result_def q ins snd facts reply)
  then show ?thesis
    by (simp add: row facts image_contents_def EXTRACTION_PROMPT_def)
qed

text \<open>
  C7, amended. In the two revisions that handle photos, for a message whose photo array is
  not empty, the handler asks Telegram for the file of the last element and, when that
  and the download of the file's address succeed, calls the model once, with the prompt
  and the base64 text of the downloaded bytes under the type \<open>image/jpeg\<close>. The payload is
  empty exactly when the download is.
\<close>

theorem photo_is_encoded:
  assumes "v \<noteq> TextOnly"
      and "msg_photo msg = Some photos"
      and "photos \<noteq> []"
      and "bot_getFile env (file_id (last photos)) = Inr fileInfo"
      and "axios_get env (fileUrl env fileInfo) = Inr bytes"
      and "on_message v env msg st = (r, st', evs)"
  shows "contents v env msg st =
       (Inr (Some (image_contents v (toString_base64 bytes))), st,
        [GetFile (file_id (last photos)), HttpGet (fileUrl env fileInfo)]) \<and>
     take 2 evs = [GetFile (file_id (last photos)), HttpGet (fileUrl env fileInfo)] \<and>
     completions evs =
       [ImageContent (EXTRACTION_PROMPT v)
          \<lparr>inlineData_data = toString_base64 bytes, inlineData_mimeType = ''image/jpeg''\<rparr>] \<and>
     (toString_base64 bytes = [] \<longleftrightarrow> bytes = [])"
proof -
  have first: "contents v env msg st =
       (Inr (Some (image_contents v (toString_base64 bytes))), st,
        [GetFile (file_id (last photos)), HttpGet (fileUrl env fileInfo)])"
    using assms(1) assms(2) assms(3) assms(4) assms(5)
    by (cases v)
       (simp_all add: contents_def contents_photo_def last_photo_def getImageAsBase64_def
          io_defs)
  show ?thesis
    using first on_message_contents [OF first assms(6)] toString_base64_empty [of bytes]
    by (simp add: image_contents_def numeral_2_eq_2)
qed

theorem photo_is_encoded_witness:
  "WithSchema \<noteq> TextOnly \<and>
   msg_photo photo_msg = Some [\<lparr>file_id = ''small''\<rparr>, \<lparr>file_id = ''large''\<rparr>] \<and>
   [\<lparr>file_id = ''small''\<rparr>, \<lparr>file_id = ''large''\<rparr>] \<noteq> [] \<and>
   bot_getFile demo_env (file_id (last [\<lparr>file_id = ''small''\<rparr>, \<lparr>file_id = ''large''\<rparr>])) =
     Inr \<lparr>file_path = Some ''photos/large.jpg''\<rparr> \<and>
   axios_get demo_env (fileUrl demo_env \<lparr>file_path = Some ''photos/large.jpg''\<rparr>) =
     Inr [0xFF, 0xD8, 0xFF, 0xE0] \<and>
   toString_base64 [0xFF, 0xD8, 0xFF, 0xE0] = ''/9j/4A=='' \<and>
   take 2 (snd (snd (on_message WithSchema demo_env photo_msg []))) =
     [GetFile ''large'',
      HttpGet ''https://api.telegram.org/file/botTOKEN/photos/large.jpg''] \<and>
   completions (snd (snd (on_message WithSchema demo_env photo_msg []))) =
     [ImageContent EXTRACTION_PROMPT_schema
        \<lparr>inlineData_data = ''/9j/4A=='', inlineData_mimeType = ''image/jpeg''\<rparr>]"
proof -
  have h1: "WithSchema \<noteq> TextOnly"
    by simp
  have h2: "msg_photo photo_msg = Some [\<lparr>file_id = ''small''\<rparr>, \<lparr>file_id = ''large''\<rparr>]"
    by (simp add: photo_msg_def)
  have h3: "[\<lparr>file_id = ''small''\<rparr>, \<lparr>file_id = ''large''\<rparr>] \<noteq> []"
    by simp
  have h4: "bot_getFile demo_env
        (file_id (last [\<lparr>file_id = ''small''\<rparr>, \<lparr>file_id = ''large''\<rparr>])) =
      Inr \<lparr>file_path = Some ''photos/large.jpg''\<rparr>"
    by (simp add: demo_env_def)
  have h5: "axios_get demo_env (fileUrl demo_env \<lparr>file_path = Some ''photos/large.jpg''\<rparr>) =
      Inr [0xFF, 0xD8, 0xFF, 0xE0]"
    by (simp add: demo_env_def)
  obtain r st' evs where h6: "on_message WithSchema demo_env photo_msg [] = (r, st', evs)"
    by (cases "on_message WithSchema demo_env photo_msg []") blast
  have enc: "toString_base64 [0xFF, 0xD8, 0xFF, 0xE0] = ''/9j/4A==''"
    by (simp add: base64_char_def base64_alphabet_def)
  have url: "fileUrl demo_env \<lparr>file_path = Some ''photos/large.jpg''\<rparr> =
      ''https://api.telegram.org/file/botTOKEN/photos/large.jpg''"
    by (simp add: fileUrl_def demo_env_def)
  show ?thesis
    using photo_is_encoded [OF h1 h2 h3 h4 h5 h6] h2 h4 h5 h6 enc url
    by (simp add: EXTRACTION_PROMPT_def)
qed

text \<open>
  C8. The top-level \<open>try\<close>/\<open>catch\<close> is there to end every failed handling with the generic
  reply "Sorry, there was an error processing your message." and with no error leaving
  the handler. The code misses one case: the \<open>catch\<close> block awaits \<open>sendMessage\<close> without a
  guard of its own. Here the model and Telegram are both unreachable: the exception of
  the model call is caught and logged, the exception of \<open>sendMessage\<close> inside the \<open>catch\<close>
  block is not caught, and the promise of the handler rejects with nothing to handle the
  rejection.
\<close>

theorem rejection_escapes_catch_block:
  "ai_generateContent outage_env (text_contents WithSchema ''Spent $25.50 on lunch today'') =
     Inl (Rejected ''fetch failed'') \<and>
   bot_sendMessage outage_env 42 ''Sorry, there was an error processing your message.'' =
     Some (Rejected ''EFATAL'') \<and>
   try_block WithSchema outage_env text_msg [] =
     (Inl (Rejected ''fetch failed''), [],
      [GenerateContentSchema (text_contents WithSchema ''Spent $25.50 on lunch today'')]) \<and>
   on_message WithSchema outage_env text_msg [] =
     (Inl (Rejected ''EFATAL''), [],
      [GenerateContentSchema (text_contents WithSchema ''Spent $25.50 on lunch today''),
       ConsoleError ''Error processing message:'' (LogError (Rejected ''fetch failed'')),
       SendMessage 42 ''Sorry, there was an error processing your message.''])"
  by (simp add: on_message_def try_catch_run try_block_def contents_def contents_photo_def
        response_text_def catch_events_def send_result_def text_msg_def outage_env_def
        demo_env_def bind_io_def return_io_def generateContentSchema_def
        reply_wording(5))

text \<open>
  C9. A parsed value that is truthy and has no \<open>value\<close> property (a number other than
  zero, a non-empty string, \<open>true\<close>, an array, an object without the key) passes the test
  \<open>value !== null\<close>, since \<open>undefined\<close> is not \<open>null\<close>: one insert is attempted, with
  \<open>value\<close> undefined, and for a primitive with all five fields undefined. A falsy parsed
  value (\<open>null\<close>, \<open>false\<close>, zero, the empty string) takes the path of the reply that no
  payment information was found, without an insert.
\<close>

theorem truthy_without_value_is_inserted:
  assumes "contents v env msg st = (Inr (Some c), st1, ev1)"
      and "response_text v env c st1 = (Inr txt, st2, ev2)"
      and "JSON_parse env txt = Inr financialData"
      and "on_message v env msg st = (r, st', evs)"
  shows "(truthy env financialData \<and> get_prop financialData ''value'' = Undefined \<longrightarrow>
        inserts evs = [payment_row (stored_record v env financialData)] \<and>
        row_value (payment_row (stored_record v env financialData)) = Undefined \<and>
        (primitive financialData \<longrightarrow>
           payment_row (stored_record v env financialData) = undefined_row)) \<and>
     (\<not> truthy env financialData \<longrightarrow>
        st' = st \<and> inserts evs = [] \<and>
        replies evs = (msg_chat_id msg, REPLY_NO_PAYMENT) #
          replies (after_send env msg REPLY_NO_PAYMENT) \<and>
        replies evs =
          (msg_chat_id msg,
           ''I couldn't find any payment information in your message. Please make sure to include an amount and description.'') #
          replies (after_send env msg REPLY_NO_PAYMENT))"
proof -
  let ?row = "payment_row (stored_record v env financialData)"
  have pre: "replies ev1 = []" "replies ev2 = []" "inserts ev1 = []" "inserts ev2 = []"
    using contents_Some [OF assms(1)] response_text_Inr [OF assms(2)] by simp_all
  have qualifying: "inserts evs = [?row]"
    if "truthy env financialData" "get_prop financialData ''value'' = Undefined"
  proof -
    have "\<exists>rest. evs = ev1 @ ev2 @ Insert ?row # rest \<and> inserts rest = []"
      using that assms(4)
      by (auto simp: on_message_processed [OF assms(1) assms(2) assms(3)]
            processFinancialData_run send_result_def catch_events_def trace_simps
            split: option.splits sum.splits)
    with pre show ?thesis
      by (auto simp: trace_simps)
  qed
  have undefined_value: "row_value ?row = Undefined"
    if "get_prop financialData ''value'' = Undefined"
    using that by (simp add: payment_row_def get_prop_stored_record)
  have all_undefined: "?row = undefined_row" if "primitive financialData"
    using that
    by (simp add: payment_row_def undefined_row_def get_prop_stored_record get_prop_primitive)
  have falsy: "st' = st \<and> evs = ev1 @ ev2 @ SendMessage (msg_chat_id msg) REPLY_NO_PAYMENT #
      after_send env msg REPLY_NO_PAYMENT"
    if "\<not> truthy env financialData"
    using that assms(4)
    by (simp add: on_message_processed [OF assms(1) assms(2) assms(3)]
          processFinancialData_run send_result_def after_send_def split: option.splits)
  show ?thesis
    using qualifying undefined_value all_undefined falsy pre
    by (auto simp: trace_simps after_send_simps reply_wording(4) [symmetric])
qed

theorem truthy_without_value_is_inserted_witness:
  "JSON_parse (answering ''7'') ''7'' = Inr (JNum 7) \<and>
   truthy (answering ''7'') (JNum 7) \<and>
   get_prop (JNum 7 :: rat jsval) ''value'' = Undefined \<and>
   primitive (JNum 7 :: rat jsval) \<and>
   inserts (snd (snd (on_message WithSchema (answering ''7'') text_msg []))) =
     [undefined_row] \<and>
   JSON_parse (answering ''null'') ''null'' = Inr JNull \<and>
   \<not> truthy (answering ''null'') JNull \<and>
   inserts (snd (snd (on_message TextOnly (answering ''null'') text_msg []))) = [] \<and>
   replies (snd (snd (on_message TextOnly (answering ''null'') text_msg []))) =
     [(42, REPLY_NO_PAYMENT)]"
proof -
  have a1: "contents WithSchema (answering ''7'') text_msg [] =
      (Inr (Some (text_contents WithSchema ''Spent $25.50 on lunch today'')), [], [])"
    by (simp add: contents_def contents_photo_def text_msg_def io_defs)
  have a2: "response_text WithSchema (answering ''7'')
        (text_contents WithSchema ''Spent $25.50 on lunch today'') [] =
      (Inr ''7'', [],
       [GenerateContentSchema (text_contents WithSchema ''Spent $25.50 on lunch today''),
        ConsoleLog ''Gemini response:'' (LogText ''7'')])"
    by (simp add: response_text_def answering_def demo_env_def io_defs)
  have a3: "JSON_parse (answering ''7'') ''7'' = Inr (JNum 7)"
    by (simp add: answering_def demo_env_def lunch_json_def null_json_def)
  have a4: "truthy (answering ''7'') (JNum 7)"
    by (simp add: answering_def demo_env_def)
  obtain r st' evs where
    a5: "on_message WithSchema (answering ''7'') text_msg [] = (r, st', evs)"
    by (cases "on_message WithSchema (answering ''7'') text_msg []") blast
  have b1: "contents TextOnly (answering ''null'') text_msg [] =
      (Inr (Some (text_contents TextOnly ''Spent $25.50 on lunch today'')), [], [])"
    by (simp add: contents_def contents_index_def text_msg_def io_defs)
  have b2: "response_text TextOnly (answering ''null'')
        (text_contents TextOnly ''Spent $25.50 on lunch today'') [] =
      (Inr ''null'', [],
       [GenerateContent (text_contents TextOnly ''Spent $25.50 on lunch today''),
        ConsoleLog ''Gemini response:'' (LogText ''null'')])"
    by (simp add: response_text_def answering_def demo_env_def io_defs)
  have b3: "JSON_parse (answering ''null'') ''null'' = Inr JNull"
    by (simp add: answering_def demo_env_def lunch_json_def null_json_def)
  obtain r2 st2 evs2 where
    b5: "on_message TextOnly (answering ''null'') text_msg [] = (r2, st2, evs2)"
    by (cases "on_message TextOnly (answering ''null'') text_msg []") blast
  have send: "bot_sendMessage (answering ''null'') (msg_chat_id text_msg) REPLY_NO_PAYMENT = None"
      "msg_chat_id text_msg = 42"
    by (simp_all add: answering_def demo_env_def text_msg_def)
  show ?thesis
    using truthy_without_value_is_inserted [OF a1 a2 a3 a5]
      truthy_without_value_is_inserted [OF b1 b2 b3 b5] a3 a4 a5 b3 b5 send
    by (simp add: after_send_simps)
qed

text \<open>
  C10. In the two revisions that handle photos, a message whose photo array is empty takes
  the photo branch (an empty array is truthy), the last element is undefined, reading its
  \<open>file_id\<close> throws before \<open>getFile\<close> is called, and the \<open>catch\<close> block sends the generic
  error reply: the only reply, and not the one that asks to send the message again.
\<close>

theorem empty_photo_array:
  assumes "v \<noteq> TextOnly"
      and "msg_photo msg = Some []"
  shows "last_photo [] = None \<and>
     on_message v env msg st =
       (send_result env (msg_chat_id msg) REPLY_PROCESSING_ERROR, st,
        [ConsoleError ''Error processing message:''
           (LogError (TypeError ''Cannot read properties of undefined (reading file_id)'')),
         SendMessage (msg_chat_id msg) REPLY_PROCESSING_ERROR]) \<and>
     replies (snd (snd (on_message v env msg st))) =
       [(msg_chat_id msg, REPLY_PROCESSING_ERROR)] \<and>
     REPLY_PROCESSING_ERROR \<noteq> REPLY_RESEND \<and>
     replies (snd (snd (on_message v env msg st))) =
       [(msg_chat_id msg, ''Sorry, there was an error processing your message.'')]"
proof -
  have "try_block v env msg st =
      (Inl (TypeError ''Cannot read properties of undefined (reading file_id)''), st, [])"
    using assms
    by (cases v)
       (simp_all add: try_block_def contents_def contents_photo_def last_photo_def
          bind_io_def throw_io_def)
  then have "on_message v env msg st =
       (send_result env (msg_chat_id msg) REPLY_PROCESSING_ERROR, st,
        [ConsoleError ''Error processing message:''
           (LogError (TypeError ''Cannot read properties of undefined (reading file_id)'')),
         SendMessage (msg_chat_id msg) REPLY_PROCESSING_ERROR])"
    by (simp add: on_message_def try_catch_run catch_events_def)
  then show ?thesis
    using reply_texts_distinct(1)
    by (simp add: trace_simps last_photo_def reply_wording(5) [symmetric])
qed

theorem empty_photo_array_witness:
  "WithPhotos \<noteq> TextOnly \<and> msg_photo empty_photo_msg = Some [] \<and>
   msg_text empty_photo_msg = Some ''hello'' \<and>
   on_message WithPhotos demo_env empty_photo_msg [] =
     (Inr (), [],
      [ConsoleError ''Error processing message:''
         (LogError (TypeError ''Cannot read properties of undefined (reading file_id)'')),
       SendMessage 42 REPLY_PROCESSING_ERROR])"
proof -
  have h1: "WithPhotos \<noteq> TextOnly"
    by simp
  have h2: "msg_photo empty_photo_msg = Some []"
    by (simp add: empty_photo_msg_def)
  have send: "send_result demo_env (msg_chat_id empty_photo_msg) REPLY_PROCESSING_ERROR = Inr ()"
      "msg_chat_id empty_photo_msg = 42" "msg_text empty_photo_msg = Some ''hello''"
    by (simp_all add: send_result_def demo_env_def empty_photo_msg_def)
  show ?thesis
    using empty_photo_array [OF h1 h2, of demo_env "[]"] h2 send
    by simp
qed

end
